theory Spec2Isabelle
  imports Main
begin

section \<open>Values, exceptions and the observable trace\<close>

text \<open>
  The program drives a browser through an external automation library. Every exception
  the library can raise is a value; the three classes that \<^verbatim>\<open>main.py\<close> imports and
  names in its handlers are constructors of their own, and every other exception class is
  \<open>OtherException\<close>. The string is what \<^verbatim>\<open>str(e)\<close> gives.
\<close>

datatype exc =
    NoSuchElementException string
  | TimeoutException string
  | ElementNotVisibleException string
  | OtherException string

text \<open>
  Python values that the program passes around: \<^verbatim>\<open>None\<close>, booleans, integers, strings,
  opaque library objects (the session, the driver, page elements) and caught exceptions.
\<close>

datatype val =
    VNone
  | VBool bool
  | VInt int
  | VStr string
  | VObj nat
  | VExc exc

text \<open>
  One interaction with the library: a method call with its receiver, positional arguments
  and keyword arguments as the source writes them, or an attribute read. A global callable
  (\<^verbatim>\<open>SB\<close>, \<^verbatim>\<open>ActionChains\<close>) is called on the receiver \<open>VNone\<close>.
\<close>

datatype dcall =
    Invoke val string "val list" "(string \<times> val) list"
  | GetAttr val string

datatype level = INFO | ERROR

text \<open>
  The methods of the two classes of \<^verbatim>\<open>main.py\<close>, with the arguments of the call.
\<close>

datatype pcall =
    Open_vote_page string
  | Login string string
  | Solve_qaptcha
  | Log_time_until_next_vote
  | Solve_cloudflare_captcha
  | Vote string string
  | Run

text \<open>
  The trace of a run, oldest event first. \<open>Enter\<close> marks the entry into a method of
  \<^verbatim>\<open>main.py\<close>; \<open>Drv n c r\<close> is the library interaction \<open>c\<close> issued by line \<open>n\<close> of
  \<^verbatim>\<open>main.py\<close> with its outcome \<open>r\<close> (\<open>Inl\<close> an exception raised, \<open>Inr\<close> the value
  returned); \<open>Log\<close> is a record handed to \<^verbatim>\<open>logging\<close> (format string and arguments);
  \<open>Sleep\<close> is \<^verbatim>\<open>time.sleep\<close>; \<open>Teardown\<close> is the release of the browser session when
  the \<^verbatim>\<open>with\<close> block is left. \<open>Enter\<close> and the line numbers are bookkeeping of the
  model: nothing the program computes depends on the trace.
\<close>

datatype event =
    Enter pcall
  | Drv nat dcall "exc + val"
  | Log level string "val list"
  | Sleep nat
  | Teardown

section \<open>Programs over an external world\<close>

text \<open>
  The library and the web site behind it are a parameter: a world state \<open>'w\<close> and a
  function that, for an interaction and the current world, gives the outcome and the next
  world. A program maps a state (world and trace so far) to a result and the state after;
  a raised exception is the result \<open>Inl\<close>.
\<close>

type_synonym 'w driver = "dcall \<Rightarrow> 'w \<Rightarrow> (exc + val) \<times> 'w"

type_synonym 'w state = "'w \<times> event list"

type_synonym 'w prog = "'w state \<Rightarrow> (exc + val) \<times> 'w state"

definition emit :: "event \<Rightarrow> 'w prog" where
  "emit ev s = (Inr VNone, (fst s, snd s @ [ev]))"

definition drv :: "'w driver \<Rightarrow> nat \<Rightarrow> dcall \<Rightarrow> 'w prog" where
  "drv d n c s =
     (case d c (fst s) of (r, w') \<Rightarrow> (r, (w', snd s @ [Drv n c r])))"

definition logging_info :: "string \<Rightarrow> val list \<Rightarrow> 'w prog" where
  "logging_info fmt args = emit (Log INFO fmt args)"

definition logging_error :: "string \<Rightarrow> val list \<Rightarrow> 'w prog" where
  "logging_error fmt args = emit (Log ERROR fmt args)"

definition time_sleep :: "nat \<Rightarrow> 'w prog" where
  "time_sleep n = emit (Sleep n)"

text \<open>Sequencing: an exception ends the sequence and becomes its result.\<close>

definition seq :: "'w prog \<Rightarrow> (val \<Rightarrow> 'w prog) \<Rightarrow> 'w prog" where
  "seq m k s = (case m s of (Inl e, s') \<Rightarrow> (Inl e, s') | (Inr v, s') \<Rightarrow> k v s')"

text \<open>A block of statements whose values are dropped; falling off its end gives \<^verbatim>\<open>None\<close>.\<close>

fun block :: "'w prog list \<Rightarrow> 'w prog" where
  "block [] s = (Inr VNone, s)"
| "block (p # ps) s =
     (case p s of (Inl e, s') \<Rightarrow> (Inl e, s') | (Inr v, s') \<Rightarrow> block ps s')"

text \<open>
  \<^verbatim>\<open>try: body except C1 as e: h1 except C2 as e: h2 ...\<close>: the first clause whose class
  matches the exception runs, in the state the body left; an exception no clause matches
  goes on.
\<close>

fun handle :: "((exc \<Rightarrow> bool) \<times> (exc \<Rightarrow> 'w prog)) list \<Rightarrow> exc \<Rightarrow> 'w prog" where
  "handle [] e s = (Inl e, s)"
| "handle ((c, h) # hs) e s = (if c e then h e s else handle hs e s)"

definition try_except ::
  "'w prog \<Rightarrow> ((exc \<Rightarrow> bool) \<times> (exc \<Rightarrow> 'w prog)) list \<Rightarrow> 'w prog" where
  "try_except body hs s =
     (case body s of (Inl e, s') \<Rightarrow> handle hs e s' | (Inr v, s') \<Rightarrow> (Inr v, s'))"

fun is_NoSuchElementException :: "exc \<Rightarrow> bool" where
  "is_NoSuchElementException (NoSuchElementException m) = True"
| "is_NoSuchElementException e = False"

fun is_TimeoutException :: "exc \<Rightarrow> bool" where
  "is_TimeoutException (TimeoutException m) = True"
| "is_TimeoutException e = False"

fun is_ElementNotVisibleException :: "exc \<Rightarrow> bool" where
  "is_ElementNotVisibleException (ElementNotVisibleException m) = True"
| "is_ElementNotVisibleException e = False"

definition By_XPATH :: val where
  "By_XPATH = VStr ''xpath''"

section \<open>settings.py\<close>

text \<open>
  The process environment is a map from names to values; \<^verbatim>\<open>os.getenv(k, default)\<close>
  gives the default for a name that is not set. The configuration is the dictionary of
  \<^verbatim>\<open>settings.py\<close>, its keys in the order written.
\<close>

definition getenv :: "(string \<rightharpoonup> string) \<Rightarrow> string \<Rightarrow> string \<Rightarrow> string" where
  "getenv env k dflt = (case env k of None \<Rightarrow> dflt | Some v \<Rightarrow> v)"

definition config :: "(string \<rightharpoonup> string) \<Rightarrow> (string \<times> string) list" where
  "config env =
     [(''vote_url'', ''https://wow.mmotop.ru/servers/5130/votes/new''),
      (''user_name'', getenv env ''mmotop_login'' ''''),
      (''user_password'', getenv env ''mmotop_password'' ''''),
      (''server_rate'', ''x2''),
      (''sirus_account_name'', getenv env ''sirus_account_name'' ''''),
      (''browser'', ''chrome'')]"

section \<open>main.py: the page\<close>

record MMOTopPage =
  driver :: val

definition MMOTopPage_init :: "val \<Rightarrow> MMOTopPage" where
  "MMOTopPage_init drv_obj = \<lparr>driver = drv_obj\<rparr>"

definition open_vote_page :: "'w driver \<Rightarrow> MMOTopPage \<Rightarrow> string \<Rightarrow> 'w prog" where
  "open_vote_page d self url = block
     [emit (Enter (Open_vote_page url)),
      logging_info ''Opening vote page: %s'' [VStr url],
      drv d 47 (Invoke (driver self) ''uc_open_with_reconnect'' [VStr url]
                  [(''reconnect_time'', VInt 7)])]"

definition login :: "'w driver \<Rightarrow> MMOTopPage \<Rightarrow> string \<Rightarrow> string \<Rightarrow> 'w prog" where
  "login d self user_name user_password = block
     [emit (Enter (Login user_name user_password)),
      logging_info ''Logging in...'' [],
      drv d 57 (Invoke (driver self) ''uc_click''
                  [VStr ''//a[@href='https://mmotop.ru/users/sign_in']'']
                  [(''by'', By_XPATH), (''reconnect_time'', VInt 5)]),
      drv d 62 (Invoke (driver self) ''send_keys''
                  [VStr ''//input[@id='user_email']'', VStr user_name]
                  [(''by'', By_XPATH)]),
      drv d 63 (Invoke (driver self) ''send_keys''
                  [VStr ''//input[@id='user_password']'', VStr user_password]
                  [(''by'', By_XPATH)]),
      drv d 66 (Invoke (driver self) ''uc_click''
                  [VStr ''//input[@name='sign_in']'']
                  [(''by'', By_XPATH), (''reconnect_time'', VInt 5)])]"

definition solve_qaptcha :: "'w driver \<Rightarrow> MMOTopPage \<Rightarrow> 'w prog" where
  "solve_qaptcha d self =
     seq (emit (Enter Solve_qaptcha)) (\<lambda>_.
     seq (drv d 72 (Invoke (driver self) ''wait_for_element_present''
                      [VStr ''//div[@class='Slider ui-draggable ui-draggable-handle']''] []))
       (\<lambda>slider. block
         [drv d 75 (Invoke VNone ''ActionChains.drag_and_drop_by_offset.perform''
                      [driver self, slider, VInt 478, VInt 0] []),
          logging_info ''Qaptcha solved!'' [],
          drv d 77 (Invoke (driver self) ''reconnect'' [VInt 3] [])]))"

definition log_time_until_next_vote :: "'w driver \<Rightarrow> MMOTopPage \<Rightarrow> 'w prog" where
  "log_time_until_next_vote d self =
     seq (emit (Enter Log_time_until_next_vote)) (\<lambda>_.
     seq (drv d 83 (Invoke (driver self) ''wait_for_element_present''
                      [By_XPATH, VStr ''//span[@class='countdown_row countdown_amount']''] []))
       (\<lambda>countdown_element.
     seq (drv d 86 (GetAttr countdown_element ''text''))
       (\<lambda>countdown_text. block
         [logging_info ''Time remaining until next vote: %s'' [countdown_text]])))"

definition solve_cloudflare_captcha :: "'w driver \<Rightarrow> MMOTopPage \<Rightarrow> 'w prog" where
  "solve_cloudflare_captcha d self =
     seq (emit (Enter Solve_cloudflare_captcha)) (\<lambda>_.
     seq (drv d 93 (Invoke (driver self) ''find_element''
                      [VStr ''//iframe[contains(@src, 'cloudflare.com')]'', By_XPATH] []))
       (\<lambda>frame. block
         [drv d 96 (Invoke (driver self) ''uc_switch_to_frame'' [frame] []),
          try_except
            (drv d 98 (Invoke (driver self) ''find_element''
                         [VStr ''//div[contains(@style, 'visible')]'', By_XPATH] []))
            [(is_NoSuchElementException, \<lambda>_. block
               [drv d 100 (Invoke (driver self) ''uc_click'' [frame]
                             [(''reconnect_time'', VInt 7)]),
                drv d 101 (Invoke (driver self) ''find_element''
                             [VStr ''//div[contains(@style, 'visible')]'', By_XPATH] [])])]]))"

definition vote :: "'w driver \<Rightarrow> MMOTopPage \<Rightarrow> string \<Rightarrow> string \<Rightarrow> 'w prog" where
  "vote d self server_rate account_name = block
     [emit (Enter (Vote server_rate account_name)),
      logging_info ''Voting for %s on server rate %s...'' [VStr account_name, VStr server_rate],
      drv d 111 (Invoke (driver self) ''execute_script'' [VStr ''window.scrollTo(0, 10000);''] []),
      drv d 112 (Invoke (driver self) ''uc_click''
                   [VStr (''//td[contains(text(), '' @ [CHR 0x27] @ server_rate @ [CHR 0x27]
                            @ '')]/../td/input[@type='radio']'')]
                   [(''by'', By_XPATH), (''reconnect_time'', VInt 3)]),
      seq (drv d 117 (Invoke (driver self) ''find_element''
                        [By_XPATH, VStr ''//div[@id='charname']/input''] []))
        (\<lambda>char_input. block
          [drv d 118 (Invoke char_input ''clear'' [] []),
           drv d 119 (Invoke char_input ''send_keys'' [VStr account_name] [])]),
      solve_cloudflare_captcha d self,
      drv d 121 (Invoke (driver self) ''reconnect'' [VInt 3] []),
      try_except
        (block
          [drv d 123 (Invoke (driver self) ''click'' [VStr ''//div/input[@type='submit']''] []),
           logging_info ''Vote successful!'' [],
           time_sleep 10])
        [(is_NoSuchElementException, \<lambda>_. block
           [logging_error ''Captcha not solved!'' []])]]"

section \<open>main.py: the orchestration\<close>

record MMOTopAutomation =
  vote_url :: string
  username :: string
  password :: string
  server_rate :: string
  sirus_account_name :: string
  browser :: string

definition MMOTopAutomation_init ::
  "string \<Rightarrow> string \<Rightarrow> string \<Rightarrow> string \<Rightarrow> string \<Rightarrow> string \<Rightarrow> MMOTopAutomation" where
  "MMOTopAutomation_init vote_url_arg user_name user_password server_rate_arg
       sirus_account_name_arg browser_arg =
     \<lparr>vote_url = vote_url_arg, username = user_name, password = user_password,
      server_rate = server_rate_arg, sirus_account_name = sirus_account_name_arg,
      browser = browser_arg\<rparr>"

text \<open>
  \<^verbatim>\<open>MMOTopAutomation(**config)\<close>: the dictionary's keys become keyword arguments. A key
  that is no parameter of \<^verbatim>\<open>__init__\<close>, or a missing parameter without default, is a
  \<^verbatim>\<open>TypeError\<close>; \<^verbatim>\<open>browser\<close> defaults to \<^verbatim>\<open>"chrome"\<close>.
\<close>

definition MMOTopAutomation_kwargs :: "(string \<times> string) list \<Rightarrow> exc + MMOTopAutomation" where
  "MMOTopAutomation_kwargs kw =
     (if \<not> set (map fst kw) \<subseteq> {''vote_url'', ''user_name'', ''user_password'', ''server_rate'',
                                  ''sirus_account_name'', ''browser''}
      then Inl (OtherException ''TypeError'')
      else
        (case (map_of kw ''vote_url'', map_of kw ''user_name'', map_of kw ''user_password'',
               map_of kw ''server_rate'', map_of kw ''sirus_account_name'') of
           (Some u, Some n, Some p, Some r, Some a) \<Rightarrow>
             Inr (MMOTopAutomation_init u n p r a
                    (case map_of kw ''browser'' of None \<Rightarrow> ''chrome'' | Some b \<Rightarrow> b))
         | _ \<Rightarrow> Inl (OtherException ''TypeError'')))"

text \<open>
  Modelled from the spec: the session scope \<^verbatim>\<open>with SB(...) as sb\<close> of the external
  library, whose code is not part of the repository. Opening the session is an interaction
  that may raise; once it is open, the body runs and the session is released on every way
  out of the block, after which an exception of the body goes on.
\<close>

definition with_SB :: "'w driver \<Rightarrow> string \<Rightarrow> (val \<Rightarrow> 'w prog) \<Rightarrow> 'w prog" where
  "with_SB d browser_name body s =
     (case drv d 165 (Invoke VNone ''SB'' []
                        [(''browser'', VStr browser_name), (''uc'', VBool True),
                         (''ad_block_on'', VBool True), (''page_load_strategy'', VStr ''none'')]) s of
        (Inl e, s') \<Rightarrow> (Inl e, s')
      | (Inr sb, s') \<Rightarrow>
          (case body sb s' of (r, s'') \<Rightarrow> (r, (fst s'', snd s'' @ [Teardown]))))"

definition run :: "'w driver \<Rightarrow> MMOTopAutomation \<Rightarrow> 'w prog" where
  "run d self =
     seq (emit (Enter Run)) (\<lambda>_.
     with_SB d (browser self) (\<lambda>sb.
       seq (drv d 168 (GetAttr sb ''driver'')) (\<lambda>drv_obj.
         (let page = MMOTopPage_init drv_obj in block
           [open_vote_page d page (vote_url self),
            login d page (username self) (password self),
            try_except
              (block
                [logging_info ''Checking if already voted today...'' [],
                 log_time_until_next_vote d page])
              [(is_NoSuchElementException, \<lambda>_. block
                 [logging_info ''Not voted today yet.'' [],
                  solve_qaptcha d page,
                  vote d page (server_rate self) (sirus_account_name self)])]]))))"

text \<open>
  The script's entry point. \<^verbatim>\<open>settings.config\<close> is built when the module is imported,
  from the environment of the process.
\<close>

definition main :: "'w driver \<Rightarrow> (string \<rightharpoonup> string) \<Rightarrow> 'w prog" where
  "main d env =
     try_except
       (\<lambda>s. case MMOTopAutomation_kwargs (config env) of
               Inl e \<Rightarrow> (Inl e, s)
             | Inr automation \<Rightarrow> run d automation s)
       [(is_NoSuchElementException, \<lambda>e. logging_error ''Element not found: %s'' [VExc e]),
        (is_TimeoutException, \<lambda>e. logging_error ''A timeout occurred: %s'' [VExc e]),
        (is_ElementNotVisibleException, \<lambda>e. logging_error ''Element not visible: %s'' [VExc e])]"

section \<open>Reading a run\<close>

text \<open>A program started in a world, with an empty trace: its result and its trace.\<close>

definition result_of :: "'w prog \<Rightarrow> 'w \<Rightarrow> exc + val" where
  "result_of p w = fst (p (w, []))"

definition trace_of :: "'w prog \<Rightarrow> 'w \<Rightarrow> event list" where
  "trace_of p w = snd (snd (p (w, [])))"

section \<open>Scripted library\<close>

text \<open>
  A library whose world is the list of outcomes still to be delivered: every interaction
  takes the next one, whatever it asks, and a library that has run out of outcomes answers
  \<^verbatim>\<open>None\<close>. It drives the program along a chosen path.
\<close>

fun scripted :: "(exc + val) list driver" where
  "scripted c [] = (Inr VNone, [])"
| "scripted c (r # rs) = (r, rs)"

section \<open>Concrete runs\<close>

text \<open>An automation object with every field set, and the one the empty environment gives.\<close>

definition demo_automation :: MMOTopAutomation where
  "demo_automation =
     MMOTopAutomation_init ''https://wow.mmotop.ru/servers/5130/votes/new''
       ''user'' ''secret'' ''x2'' ''hero'' ''chrome''"

definition unset_automation :: MMOTopAutomation where
  "unset_automation =
     MMOTopAutomation_init ''https://wow.mmotop.ru/servers/5130/votes/new''
       [] [] ''x2'' [] ''chrome''"

text \<open>A page over a driver object.\<close>

definition demo_page :: MMOTopPage where
  "demo_page = MMOTopPage_init (VObj 2)"

text \<open>
  Outcomes for the scripted library, in the order \<^verbatim>\<open>run\<close> asks for them: the session, its
  driver, the vote page, the four steps of the login, then the probe. Here the countdown
  is found.
\<close>

definition already_voted :: "(exc + val) list" where
  "already_voted =
     [Inr (VObj 1), Inr (VObj 2), Inr VNone, Inr VNone, Inr VNone, Inr VNone, Inr VNone,
      Inr (VObj 3), Inr (VStr ''11:59:59'')]"

text \<open>
  The countdown element is found, and reading its text on line 86 raises
  \<^verbatim>\<open>NoSuchElementException\<close>; whatever follows succeeds.
\<close>

definition countdown_text_missing :: "(exc + val) list" where
  "countdown_text_missing =
     [Inr (VObj 1), Inr (VObj 2), Inr VNone, Inr VNone, Inr VNone, Inr VNone, Inr VNone,
      Inr (VObj 3), Inl (NoSuchElementException ''text'')]"

text \<open>The countdown is not found; whatever follows succeeds.\<close>

definition not_voted :: "(exc + val) list" where
  "not_voted =
     [Inr (VObj 1), Inr (VObj 2), Inr VNone, Inr VNone, Inr VNone, Inr VNone, Inr VNone,
      Inl (NoSuchElementException ''countdown'')]"

text \<open>The countdown is not found and the wait for the slider times out.\<close>

definition slider_missing :: "(exc + val) list" where
  "slider_missing = not_voted @ [Inl (TimeoutException ''slider'')]"

text \<open>The slider is solved and the radio button of the server rate is not found.\<close>

definition radio_missing :: "(exc + val) list" where
  "radio_missing =
     not_voted @ [Inr (VObj 4), Inr VNone, Inr VNone, Inr VNone,
                  Inl (NoSuchElementException ''radio'')]"

text \<open>The marker is not found by the first check in the iframe.\<close>

definition marker_late :: "(exc + val) list" where
  "marker_late =
     not_voted @ [Inr (VObj 4), Inr VNone, Inr VNone, Inr VNone, Inr VNone, Inr (VObj 5),
                  Inr VNone, Inr VNone, Inr (VObj 6), Inr VNone,
                  Inl (NoSuchElementException ''marker'')]"

text \<open>The marker is not found at first, and the submit button is not found.\<close>

definition submit_missing :: "(exc + val) list" where
  "submit_missing =
     not_voted @ [Inr (VObj 4), Inr VNone, Inr VNone, Inr VNone, Inr VNone, Inr (VObj 5),
                  Inr VNone, Inr VNone, Inr (VObj 6), Inr VNone, Inr (VObj 7), Inr VNone,
                  Inl (NoSuchElementException ''submit'')]"

text \<open>The click on the sign-in link times out.\<close>

definition login_timeout :: "(exc + val) list" where
  "login_timeout =
     [Inr (VObj 1), Inr (VObj 2), Inr VNone, Inl (TimeoutException ''sign in'')]"

text \<open>The wait for the countdown times out.\<close>

definition probe_timeout :: "(exc + val) list" where
  "probe_timeout =
     [Inr (VObj 1), Inr (VObj 2), Inr VNone, Inr VNone, Inr VNone, Inr VNone, Inr VNone,
      Inl (TimeoutException ''countdown'')]"

text \<open>Outcomes for the vote alone: the submit button is not found.\<close>

definition vote_submit_missing :: "(exc + val) list" where
  "vote_submit_missing =
     [Inr VNone, Inr VNone, Inr (VObj 5), Inr VNone, Inr VNone, Inr (VObj 6), Inr VNone,
      Inr (VObj 7), Inr VNone, Inl (NoSuchElementException ''submit'')]"

text \<open>Outcomes for the vote alone: the radio button is not found.\<close>

definition vote_radio_missing :: "(exc + val) list" where
  "vote_radio_missing = [Inr VNone, Inl (NoSuchElementException ''radio'')]"

text \<open>
  Outcomes for the iframe challenge alone: the marker is not found and the click on the
  iframe times out.
\<close>

definition click_fails :: "(exc + val) list" where
  "click_fails =
     [Inr (VObj 6), Inr VNone, Inl (NoSuchElementException ''marker''),
      Inl (TimeoutException ''click'')]"

text \<open>Outcomes for the iframe challenge alone: the marker is there after the click.\<close>

definition marker_after_click :: "(exc + val) list" where
  "marker_after_click =
     [Inr (VObj 6), Inr VNone, Inl (NoSuchElementException ''marker''), Inr VNone,
      Inr (VObj 7)]"

section \<open>Observations of a trace\<close>

text \<open>
  The exceptions raised by library interactions, each with the line that issued it, in the
  order raised.
\<close>

fun raises :: "event list \<Rightarrow> (nat \<times> exc) list" where
  "raises [] = []"
| "raises (Drv n c (Inl e) # evs) = (n, e) # raises evs"
| "raises (ev # evs) = raises evs"

text \<open>The methods entered, in order.\<close>

fun entered :: "event list \<Rightarrow> pcall list" where
  "entered [] = []"
| "entered (Enter m # evs) = m # entered evs"
| "entered (ev # evs) = entered evs"

text \<open>The lines of the library interactions issued, in order.\<close>

fun lines :: "event list \<Rightarrow> nat list" where
  "lines [] = []"
| "lines (Drv n c r # evs) = n # lines evs"
| "lines (ev # evs) = lines evs"

text \<open>Line \<open>n\<close> issued an interaction that returned a value.\<close>

fun returned :: "nat \<Rightarrow> event list \<Rightarrow> bool" where
  "returned n [] = False"
| "returned n (Drv n' c (Inr v) # evs) = (n' = n \<or> returned n evs)"
| "returned n (ev # evs) = returned n evs"

text \<open>A line of \<open>L\<close> issued an interaction that raised an exception satisfying \<open>P\<close>.\<close>

fun raised_in :: "nat set \<Rightarrow> (exc \<Rightarrow> bool) \<Rightarrow> event list \<Rightarrow> bool" where
  "raised_in L P [] = False"
| "raised_in L P (Drv n c (Inl e) # evs) = ((n \<in> L \<and> P e) \<or> raised_in L P evs)"
| "raised_in L P (ev # evs) = raised_in L P evs"

text \<open>The slider challenge and the vote, the two operations of the voting path.\<close>

fun slider_or_vote :: "pcall \<Rightarrow> bool" where
  "slider_or_vote Solve_qaptcha = True"
| "slider_or_vote (Vote r a) = True"
| "slider_or_vote m = False"

text \<open>
  Every exception in the trace is a \<^verbatim>\<open>NoSuchElementException\<close> raised by a line of \<open>C\<close>:
  \<open>C\<close> collects the lines that stand inside a \<^verbatim>\<open>try\<close> whose handler names that class.
\<close>

fun caught :: "nat set \<Rightarrow> event list \<Rightarrow> bool" where
  "caught C [] = True"
| "caught C (Drv n c (Inl e) # evs) = (is_NoSuchElementException e \<and> n \<in> C \<and> caught C evs)"
| "caught C (ev # evs) = caught C evs"

text \<open>The exception an event raised, if it is a raising interaction.\<close>

fun raise_of :: "event \<Rightarrow> exc option" where
  "raise_of (Drv n c (Inl e)) = Some e"
| "raise_of ev = None"

text \<open>
  A result agrees with a trace, relative to the handled lines \<open>C\<close>: a normal result saw
  only handled exceptions; an exceptional result is the exception raised by the last event,
  and everything before it was handled.
\<close>

definition fatal :: "nat set \<Rightarrow> exc + val \<Rightarrow> event list \<Rightarrow> bool" where
  "fatal C r evs =
     (case r of
        Inr v \<Rightarrow> caught C evs
      | Inl e \<Rightarrow> evs \<noteq> [] \<and> raise_of (last evs) = Some e \<and> caught C (butlast evs))"

section \<open>Summaries of the methods\<close>

text \<open>
  A program, started in any state, extends the trace by events that, with its result,
  satisfy \<open>Q\<close>. It always returns: programs are total functions.
\<close>

definition emits :: "'w prog \<Rightarrow> (exc + val \<Rightarrow> event list \<Rightarrow> bool) \<Rightarrow> bool" where
  "emits p Q = (\<forall>s. \<exists>r w' evs. p s = (r, (w', snd s @ evs)) \<and> Q r evs)"

text \<open>
  A method without handlers: its interactions come from the lines \<open>L\<close>, it enters neither
  the slider challenge nor the vote, and the first exception ends it.
\<close>

definition simple_post :: "nat set \<Rightarrow> exc + val \<Rightarrow> event list \<Rightarrow> bool" where
  "simple_post L r evs =
     (filter slider_or_vote (entered evs) = [] \<and> set (lines evs) \<subseteq> L \<and> fatal {} r evs)"

text \<open>The slider challenge.\<close>

definition qaptcha_post :: "exc + val \<Rightarrow> event list \<Rightarrow> bool" where
  "qaptcha_post r evs =
     (filter slider_or_vote (entered evs) = [Solve_qaptcha] \<and>
      set (lines evs) \<subseteq> {72, 75, 77} \<and> fatal {} r evs)"

text \<open>
  The countdown probe: it returns exactly when line 86 returned, and then its last event is
  the record of the remaining time.
\<close>

definition probe_post :: "exc + val \<Rightarrow> event list \<Rightarrow> bool" where
  "probe_post r evs =
     (simple_post {83, 86} r evs \<and> returned 86 evs = (\<not> isl r) \<and>
      (\<not> isl r \<longrightarrow> evs \<noteq> [] \<and>
         (\<exists>txt. last evs = Log INFO ''Time remaining until next vote: %s'' [txt])))"

text \<open>The iframe challenge: only the first marker check, line 98, is handled.\<close>

definition cf_post :: "exc + val \<Rightarrow> event list \<Rightarrow> bool" where
  "cf_post r evs =
     (filter slider_or_vote (entered evs) = [] \<and>
      set (lines evs) \<subseteq> {93, 96, 98, 100, 101} \<and> fatal {98} r evs)"

text \<open>
  A missing submit button: the result is a normal return and the last event is the error
  record.
\<close>

definition submit_soft :: "exc + val \<Rightarrow> event list \<Rightarrow> bool" where
  "submit_soft r evs =
     (\<forall>m. (123, NoSuchElementException m) \<in> set (raises evs) \<longrightarrow>
        r = Inr VNone \<and> evs \<noteq> [] \<and> last evs = Log ERROR ''Captcha not solved!'' [])"

text \<open>The vote: lines 98 and 123 are handled.\<close>

definition vote_post :: "string \<Rightarrow> string \<Rightarrow> exc + val \<Rightarrow> event list \<Rightarrow> bool" where
  "vote_post sr an r evs =
     (filter slider_or_vote (entered evs) = [Vote sr an] \<and>
      set (lines evs) \<subseteq> {111, 112, 117, 118, 119, 93, 96, 98, 100, 101, 121, 123} \<and>
      fatal {98, 123} r evs \<and> submit_soft r evs)"

text \<open>
  The statements of \<^verbatim>\<open>run\<close> inside the session, and any prefix of them that an exception
  cut short: which of the slider challenge and the vote were entered is decided by the
  outcome of the probe (lines 83 and 86) and of the slider challenge (lines 72, 75, 77).
\<close>

definition body_post :: "string \<Rightarrow> string \<Rightarrow> exc + val \<Rightarrow> event list \<Rightarrow> bool" where
  "body_post sr an r b =
     (fatal {83, 86, 98, 123} r b \<and>
      filter slider_or_vote (entered b) =
        (if raised_in {83, 86} is_NoSuchElementException b
         then (if raised_in {72, 75, 77} (\<lambda>e. True) b then [Solve_qaptcha]
               else [Solve_qaptcha, Vote sr an])
         else []) \<and>
      submit_soft r b \<and>
      (raised_in {83, 86} (\<lambda>e. \<not> is_NoSuchElementException e) b \<longrightarrow>
         \<not> raised_in {83, 86} is_NoSuchElementException b) \<and>
      (returned 86 b \<longrightarrow>
         r = Inr VNone \<and> b \<noteq> [] \<and> \<not> raised_in {83, 86} (\<lambda>e. True) b \<and>
         (\<exists>txt. last b = Log INFO ''Time remaining until next vote: %s'' [txt])))"

text \<open>
  The whole of \<^verbatim>\<open>run\<close>: either the session could not be opened, or the session was
  released after the statements inside it.
\<close>

definition run_post :: "MMOTopAutomation \<Rightarrow> exc + val \<Rightarrow> event list \<Rightarrow> bool" where
  "run_post a r evs =
     ((\<exists>c e. r = Inl e \<and> evs = [Enter Run, Drv 165 c (Inl e)]) \<or>
      (\<exists>b. evs = b @ [Teardown] \<and> body_post (server_rate a) (sirus_account_name a) r b))"

section \<open>Facts about observations\<close>

lemma raises_append [simp]: "raises (xs @ ys) = raises xs @ raises ys"
  by (induction xs rule: raises.induct) simp_all

lemma entered_append [simp]: "entered (xs @ ys) = entered xs @ entered ys"
  by (induction xs rule: entered.induct) simp_all

lemma lines_append [simp]: "lines (xs @ ys) = lines xs @ lines ys"
  by (induction xs rule: lines.induct) simp_all

section \<open>Rules for summaries\<close>

lemma emits_weaken: "emits p Q \<Longrightarrow> (\<And>r evs. Q r evs \<Longrightarrow> Q' r evs) \<Longrightarrow> emits p Q'"
  unfolding emits_def by blast

lemma emits_emit: "emits (emit ev) (\<lambda>r evs. r = Inr VNone \<and> evs = [ev])"
  unfolding emits_def emit_def by simp

lemma emits_logging_info: "emits (logging_info f a) (\<lambda>r evs. r = Inr VNone \<and> evs = [Log INFO f a])"
  unfolding logging_info_def by (rule emits_emit)

lemma emits_logging_error: "emits (logging_error f a) (\<lambda>r evs. r = Inr VNone \<and> evs = [Log ERROR f a])"
  unfolding logging_error_def by (rule emits_emit)

lemma emits_time_sleep: "emits (time_sleep n) (\<lambda>r evs. r = Inr VNone \<and> evs = [Sleep n])"
  unfolding time_sleep_def by (rule emits_emit)

lemma emits_drv: "emits (drv d n c) (\<lambda>r evs. evs = [Drv n c r])"
  unfolding emits_def drv_def by (simp split: prod.split)

lemma emits_seq:
  assumes "emits m Q1" and "\<And>v. emits (k v) (Q2 v)"
  shows "emits (seq m k) (\<lambda>r evs. (\<exists>e. r = Inl e \<and> Q1 r evs) \<or>
           (\<exists>v evs1 evs2. evs = evs1 @ evs2 \<and> Q1 (Inr v) evs1 \<and> Q2 v r evs2))"
  unfolding emits_def
proof
  fix s :: "'a state"
  from assms(1) obtain r1 w1 evs1 where m: "m s = (r1, (w1, snd s @ evs1))" and q1: "Q1 r1 evs1"
    unfolding emits_def by blast
  show "\<exists>r w' evs. seq m k s = (r, w', snd s @ evs) \<and>
          ((\<exists>e. r = Inl e \<and> Q1 r evs) \<or>
           (\<exists>v evs1 evs2. evs = evs1 @ evs2 \<and> Q1 (Inr v) evs1 \<and> Q2 v r evs2))"
  proof (cases r1)
    case (Inl e)
    with m q1 show ?thesis by (auto simp: seq_def)
  next
    case (Inr v)
    from assms(2)[of v] obtain r2 w2 evs2
      where k: "k v (w1, snd s @ evs1) = (r2, (w2, (snd s @ evs1) @ evs2))" and q2: "Q2 v r2 evs2"
      unfolding emits_def using snd_conv by metis
    with m q1 Inr show ?thesis by (auto simp: seq_def)
  qed
qed

lemma block_Cons_seq: "block (p # ps) = seq p (\<lambda>_. block ps)"
  by (rule ext) (simp add: seq_def)

lemma emits_block_Nil: "emits (block []) (\<lambda>r evs. r = Inr VNone \<and> evs = [])"
  unfolding emits_def by simp

lemma emits_block_Cons:
  assumes "emits p Q1" and "emits (block ps) Q2"
  shows "emits (block (p # ps)) (\<lambda>r evs. (\<exists>e. r = Inl e \<and> Q1 r evs) \<or>
           (\<exists>v evs1 evs2. evs = evs1 @ evs2 \<and> Q1 (Inr v) evs1 \<and> Q2 r evs2))"
  unfolding block_Cons_seq using emits_seq[OF assms(1), of "\<lambda>_. block ps" "\<lambda>_. Q2"] assms(2) by simp

lemma try_except_one:
  "try_except body [(c, \<lambda>_. h)] s =
     (case body s of (Inl e, s') \<Rightarrow> if c e then h s' else (Inl e, s') | (Inr v, s') \<Rightarrow> (Inr v, s'))"
  by (simp add: try_except_def split: prod.split sum.split)

lemma emits_try:
  assumes "emits body Q1" and "emits h Q2"
  shows "emits (try_except body [(c, \<lambda>_. h)]) (\<lambda>r evs.
           (\<exists>v. r = Inr v \<and> Q1 r evs) \<or> (\<exists>e. r = Inl e \<and> \<not> c e \<and> Q1 r evs) \<or>
           (\<exists>e evs1 evs2. c e \<and> evs = evs1 @ evs2 \<and> Q1 (Inl e) evs1 \<and> Q2 r evs2))"
  unfolding emits_def
proof
  fix s :: "'a state"
  from assms(1) obtain r1 w1 evs1 where m: "body s = (r1, (w1, snd s @ evs1))" and q1: "Q1 r1 evs1"
    unfolding emits_def by blast
  from assms(2) obtain r2 w2 evs2
      where k: "h (w1, snd s @ evs1) = (r2, (w2, (snd s @ evs1) @ evs2))" and q2: "Q2 r2 evs2"
      unfolding emits_def using snd_conv by metis
  show "\<exists>r w' evs. try_except body [(c, \<lambda>_. h)] s = (r, w', snd s @ evs) \<and>
          ((\<exists>v. r = Inr v \<and> Q1 r evs) \<or> (\<exists>e. r = Inl e \<and> \<not> c e \<and> Q1 r evs) \<or>
           (\<exists>e evs1 evs2. c e \<and> evs = evs1 @ evs2 \<and> Q1 (Inl e) evs1 \<and> Q2 r evs2))"
    using m q1 k q2 by (cases r1) (auto simp: try_except_one)
qed

lemmas vcg = emits_emit emits_logging_info emits_logging_error emits_time_sleep emits_drv emits_seq
  emits_block_Nil emits_block_Cons emits_try

section \<open>Handled and fatal exceptions\<close>

lemma caught_append [simp]: "caught C (xs @ ys) = (caught C xs \<and> caught C ys)"
  by (induction C xs rule: caught.induct) simp_all

lemma caught_raises: "caught C evs \<Longrightarrow> (n, e) \<in> set (raises evs) \<Longrightarrow> is_NoSuchElementException e \<and> n \<in> C"
  by (induction C evs rule: caught.induct) auto

lemma caught_mono: "caught C evs \<Longrightarrow> C \<subseteq> D \<Longrightarrow> caught D evs"
  by (induction C evs rule: caught.induct) auto

lemma raises_within: "set (lines evs) \<subseteq> L \<Longrightarrow> (n, e) \<in> set (raises evs) \<Longrightarrow> n \<in> L"
  by (induction evs rule: raises.induct) auto

lemma fatal_Inr: "fatal C (Inr v) evs = caught C evs"
  by (simp add: fatal_def)

lemma fatal_Inl:
  "fatal C (Inl e) evs = (evs \<noteq> [] \<and> raise_of (last evs) = Some e \<and> caught C (butlast evs))"
  by (simp add: fatal_def)

lemmas fatal_simps = fatal_Inr fatal_Inl

lemma fatal_prepend: "caught C evs1 \<Longrightarrow> fatal C r evs2 \<Longrightarrow> fatal C r (evs1 @ evs2)"
  by (cases r) (auto simp: butlast_append fatal_simps)

lemma fatal_single: "fatal C r [Drv n c r]"
  by (cases r) (auto simp: fatal_simps)

lemma caught_butlast: "caught C evs \<Longrightarrow> caught C (butlast evs)"
  by (induction C evs rule: caught.induct) auto

lemma raise_of_Some: "raise_of ev = Some e \<Longrightarrow> \<exists>n c. ev = Drv n c (Inl e)"
  by (cases ev rule: raise_of.cases) auto

lemma fatal_mono: "fatal C r evs \<Longrightarrow> C \<subseteq> D \<Longrightarrow> fatal D r evs"
  by (cases r) (auto intro: caught_mono simp: fatal_simps)

lemma returned_append [simp]: "returned n (xs @ ys) = (returned n xs \<or> returned n ys)"
  by (induction n xs rule: returned.induct) auto

lemma raised_in_append [simp]: "raised_in L P (xs @ ys) = (raised_in L P xs \<or> raised_in L P ys)"
  by (induction L P xs rule: raised_in.induct) auto

lemma not_raised: "set (lines evs) \<subseteq> L \<Longrightarrow> n \<notin> L \<Longrightarrow> (n, e) \<notin> set (raises evs)"
  using raises_within by blast

lemma not_returned: "set (lines evs) \<subseteq> L \<Longrightarrow> n \<notin> L \<Longrightarrow> \<not> returned n evs"
  by (induction n evs rule: returned.induct) auto

lemma not_raised_in: "set (lines evs) \<subseteq> L' \<Longrightarrow> L \<inter> L' = {} \<Longrightarrow> \<not> raised_in L P evs"
  by (induction L P evs rule: raised_in.induct) auto

lemma raised_in_iff: "raised_in L P evs \<longleftrightarrow> (\<exists>n e. (n, e) \<in> set (raises evs) \<and> n \<in> L \<and> P e)"
  by (induction L P evs rule: raised_in.induct) auto

lemma caught_not_raised_in: "caught C evs \<Longrightarrow> \<not> raised_in L (\<lambda>e. \<not> is_NoSuchElementException e) evs"
  by (induction C evs rule: caught.induct) auto

lemma caught_empty_raised_in: "caught {} evs \<Longrightarrow> \<not> raised_in L P evs"
  by (induction L P evs rule: raised_in.induct) auto

lemma raised_in_snoc:
  "set (lines (pre @ [ev])) \<subseteq> L \<Longrightarrow> raise_of ev = Some e \<Longrightarrow> raised_in L P [ev] = P e"
  by (cases ev rule: raise_of.cases) auto

lemma raised_in_fatal:
  assumes "fatal {} r evs" and "set (lines evs) \<subseteq> Lm" and "Lm \<subseteq> L"
  shows "raised_in L P evs = (case r of Inl e \<Rightarrow> P e | Inr v \<Rightarrow> False)"
proof (cases r)
  case (Inr v)
  with assms(1) show ?thesis by (simp add: fatal_simps caught_empty_raised_in)
next
  case (Inl e)
  with assms(1) have ne: "evs \<noteq> []" and l: "raise_of (last evs) = Some e"
    and c: "caught {} (butlast evs)" by (simp_all add: fatal_simps)
  from ne have split: "evs = butlast evs @ [last evs]" by simp
  have "raised_in L P evs = (raised_in L P (butlast evs) \<or> raised_in L P [last evs])"
    by (subst split) simp
  moreover have "\<not> raised_in L P (butlast evs)" using c by (rule caught_empty_raised_in)
  moreover have "raised_in L P [last evs] = P e"
  proof (rule raised_in_snoc[OF _ l])
    show "set (lines (butlast evs @ [last evs])) \<subseteq> L" using split assms(2,3) by auto
  qed
  ultimately show ?thesis using Inl by simp
qed

lemma fatal_append:
  assumes "fatal C' r ys" and "C' \<subseteq> C"
  shows "fatal C r (xs @ ys) = caught C xs"
proof (cases r)
  case (Inr v)
  with assms show ?thesis by (auto simp: fatal_simps intro: caught_mono)
next
  case (Inl e)
  with assms show ?thesis by (auto simp: fatal_simps butlast_append intro: caught_mono)
qed

lemma fatal_Cons:
  assumes "fatal C' r ys" and "C' \<subseteq> C"
  shows "fatal C r (x # ys) = caught C [x]"
  using fatal_append[OF assms, of "[x]"] by simp

lemma caught_fatal:
  "fatal C' (Inl e) evs \<Longrightarrow> is_NoSuchElementException e \<Longrightarrow> set (lines evs) \<subseteq> L \<Longrightarrow>
   L \<subseteq> C \<Longrightarrow> C' \<subseteq> C \<Longrightarrow> caught C evs"
proof -
  assume f: "fatal C' (Inl e) evs" and n: "is_NoSuchElementException e"
    and l: "set (lines evs) \<subseteq> L" and s: "L \<subseteq> C" "C' \<subseteq> C"
  from f have ne: "evs \<noteq> []" and r: "raise_of (last evs) = Some e"
    and c: "caught C' (butlast evs)" by (simp_all add: fatal_simps)
  from ne have split: "evs = butlast evs @ [last evs]" by simp
  from r obtain k c' where lastev: "last evs = Drv k c' (Inl e)" by (auto dest: raise_of_Some)
  have "k \<in> set (lines evs)" by (subst split) (simp add: lastev)
  with l s have "k \<in> C" by auto
  with n lastev have "caught C [last evs]" by simp
  moreover from c s have "caught C (butlast evs)" by (auto intro: caught_mono)
  ultimately have "caught C (butlast evs @ [last evs])" by simp
  with split show ?thesis by simp
qed

lemma caught_Inr: "fatal C' (Inr v) evs \<Longrightarrow> C' \<subseteq> C \<Longrightarrow> caught C evs"
  by (auto simp: fatal_simps intro: caught_mono)

lemma caught_empty_any: "caught {} evs \<Longrightarrow> caught C evs"
  using caught_mono[of "{}" evs C] by simp

lemma fatal_empty_any: "fatal {} r evs \<Longrightarrow> fatal C r evs"
  using fatal_mono[of "{}" r evs C] by simp

lemma caught_empty_raises: "caught {} evs \<Longrightarrow> raises evs = []"
  by (induction "{} :: nat set" evs rule: caught.induct) auto

lemma fatal_nonempty: "fatal C' (Inl e) evs \<Longrightarrow> evs \<noteq> []"
  by (simp add: fatal_simps)

lemma fatal_append_step:
  "ys \<noteq> [] \<Longrightarrow> fatal C r (xs @ ys) = (caught C xs \<and> fatal C r ys)"
  by (cases r) (auto simp: fatal_simps butlast_append)

lemma fatal_Cons_step:
  "ys \<noteq> [] \<Longrightarrow> fatal C r (x # ys) = (caught C [x] \<and> fatal C r ys)"
  using fatal_append_step[of ys C r "[x]"] by simp

lemma fatal_weaken: "fatal C' r evs \<Longrightarrow> C' \<subseteq> C \<Longrightarrow> fatal C r evs"
  by (rule fatal_mono)

lemma fatal_raises_last:
  "fatal C (Inl e) evs \<Longrightarrow> (n, x) \<in> set (raises evs) \<Longrightarrow>
   (is_NoSuchElementException x \<and> n \<in> C) \<or> (x = e \<and> (\<exists>c. last evs = Drv n c (Inl e)))"
proof -
  assume f: "fatal C (Inl e) evs" and m: "(n, x) \<in> set (raises evs)"
  from f have ne: "evs \<noteq> []" and r: "raise_of (last evs) = Some e"
    and c: "caught C (butlast evs)" by (simp_all add: fatal_simps)
  from ne have split: "evs = butlast evs @ [last evs]" by simp
  from r obtain k c' where lastev: "last evs = Drv k c' (Inl e)" by (auto dest: raise_of_Some)
  have "set (raises evs) = set (raises (butlast evs)) \<union> {(k, e)}"
    by (subst split) (simp add: lastev)
  with m have "(n, x) \<in> set (raises (butlast evs)) \<or> (n, x) = (k, e)" by auto
  then show ?thesis using c lastev by (auto dest: caught_raises)
qed

section \<open>The methods one by one\<close>

lemma emits_with_SB:
  assumes "\<And>sb. emits (body sb) (Q sb)"
  shows "emits (with_SB d b body) (\<lambda>r evs.
           (\<exists>c e. r = Inl e \<and> evs = [Drv 165 c (Inl e)]) \<or>
           (\<exists>c sb evs2. evs = Drv 165 c (Inr sb) # evs2 @ [Teardown] \<and> Q sb r evs2))"
  unfolding emits_def
proof
  fix s :: "'a state"
  let ?c = "Invoke VNone ''SB'' []
              [(''browser'', VStr b), (''uc'', VBool True),
               (''ad_block_on'', VBool True), (''page_load_strategy'', VStr ''none'')]"
  obtain r1 w1 where d: "d ?c (fst s) = (r1, w1)" by (cases "d ?c (fst s)")
  show "\<exists>r w' evs. with_SB d b body s = (r, w', snd s @ evs) \<and>
          ((\<exists>c e. r = Inl e \<and> evs = [Drv 165 c (Inl e)]) \<or>
           (\<exists>c sb evs2. evs = Drv 165 c (Inr sb) # evs2 @ [Teardown] \<and> Q sb r evs2))"
  proof (cases r1)
    case (Inl e)
    with d show ?thesis by (simp add: with_SB_def drv_def)
  next
    case (Inr sb)
    from assms[of sb] obtain r2 w2 evs2
      where k: "body sb (w1, snd s @ [Drv 165 ?c (Inr sb)]) = (r2, (w2, (snd s @ [Drv 165 ?c (Inr sb)]) @ evs2))"
        and q2: "Q sb r2 evs2"
      unfolding emits_def using snd_conv by metis
    with d Inr show ?thesis by (simp add: with_SB_def drv_def)
  qed
qed

lemma emitsD: "emits p Q \<Longrightarrow> Q (result_of p w) (trace_of p w)"
  unfolding emits_def result_of_def trace_of_def
  by (metis append_Nil fst_conv snd_conv)

lemma open_vote_page_call: "emits (open_vote_page d self url) (simple_post {47})"
  unfolding open_vote_page_def
  apply (rule emits_weaken)
   apply (rule vcg)+
  apply (auto simp: simple_post_def fatal_simps)
  done

lemma login_call: "emits (login d self u p) (simple_post {57, 62, 63, 66})"
  unfolding login_def
  apply (rule emits_weaken)
   apply (rule vcg)+
  apply (auto simp: simple_post_def fatal_simps)
  done

lemma solve_qaptcha_call: "emits (solve_qaptcha d self) qaptcha_post"
  unfolding solve_qaptcha_def
  apply (rule emits_weaken)
   apply (rule vcg)+
  apply (auto simp: qaptcha_post_def fatal_simps)
  done

lemma log_time_until_next_vote_call: "emits (log_time_until_next_vote d self) probe_post"
  unfolding log_time_until_next_vote_def
  apply (rule emits_weaken)
   apply (rule vcg)+
  apply (auto simp: probe_post_def simple_post_def fatal_simps)
  done

lemma solve_cloudflare_captcha_call: "emits (solve_cloudflare_captcha d self) cf_post"
  unfolding solve_cloudflare_captcha_def
  apply (rule emits_weaken)
   apply (rule vcg)+
  apply (auto simp: cf_post_def fatal_simps)
  done

lemma cf_exact:
  "emits (solve_cloudflare_captcha d p) (\<lambda>r evs. returned 96 evs \<longrightarrow>
     count_list (lines evs) 98 = 1 \<and>
     count_list (lines evs) 100 = (if raised_in {98} is_NoSuchElementException evs then 1 else 0) \<and>
     count_list (lines evs) 101 = (if returned 100 evs then 1 else 0) \<and>
     (returned 100 evs \<longrightarrow> raised_in {98} is_NoSuchElementException evs))"
  unfolding solve_cloudflare_captcha_def
  apply (rule emits_weaken)
   apply (rule vcg)+
  apply (elim disjE exE conjE)
  apply simp_all
  done

lemma vote_call: "emits (vote d self sr an) (vote_post sr an)"
  unfolding vote_def
  apply (rule emits_weaken)
   apply (rule vcg solve_cloudflare_captcha_call)+
  apply (auto simp: vote_post_def cf_post_def submit_soft_def not_raised butlast_append fatal_simps
      intro: caught_mono caught_butlast)
  done

section \<open>The statements inside the session\<close>

lemma simple_post_early:
  assumes "simple_post L (Inl e) evs" and "L \<inter> {83, 86, 72, 75, 77, 123} = {}"
  shows "body_post sr an (Inl e) evs"
proof -
  from assms(1) have f: "fatal {} (Inl e) evs" and l: "set (lines evs) \<subseteq> L"
    and en: "filter slider_or_vote (entered evs) = []" by (simp_all add: simple_post_def)
  from f have 1: "fatal {83, 86, 98, 123} (Inl e) evs" by (rule fatal_empty_any)
  from assms(2) have "{83, 86} \<inter> L = {}" by auto
  with l have 2: "\<And>P. \<not> raised_in {83, 86} P evs" by (rule not_raised_in)
  from assms(2) have "86 \<notin> L" "123 \<notin> L" by auto
  with l have 3: "\<not> returned 86 evs" and 4: "\<And>x. (123, x) \<notin> set (raises evs)"
    by (auto dest: not_returned not_raised)
  show ?thesis using 1 2 3 4 en by (simp add: body_post_def submit_soft_def)
qed

lemma body_post_prepend:
  assumes "caught {} pre" and "filter slider_or_vote (entered pre) = []"
    and "\<not> returned 86 pre" and "body_post sr an r b"
  shows "body_post sr an r (pre @ b)"
proof -
  from assms(1) have 1: "caught {83, 86, 98, 123} pre" by (rule caught_empty_any)
  from assms(1) have 2: "\<And>L P. \<not> raised_in L P pre" by (rule caught_empty_raised_in)
  from assms(1) have 3: "raises pre = []" by (rule caught_empty_raises)
  from assms(4) have "fatal {83, 86, 98, 123} r b" by (simp add: body_post_def)
  with 1 have 4: "fatal {83, 86, 98, 123} r (pre @ b)" by (rule fatal_prepend)
  show ?thesis using assms(2,3,4) 2 3 4 by (simp add: body_post_def submit_soft_def)
qed

lemma probe_ok_body:
  assumes "probe_post (Inr v) P"
  shows "body_post sr an (Inr VNone) P"
proof -
  from assms have c: "caught {} P" and e: "filter slider_or_vote (entered P) = []"
    and ret: "returned 86 P" and ne: "P \<noteq> []"
    and l: "\<exists>txt. last P = Log INFO ''Time remaining until next vote: %s'' [txt]"
    by (auto simp: probe_post_def simple_post_def fatal_Inr)
  from c have 1: "caught {83, 86, 98, 123} P" by (rule caught_empty_any)
  from c have 2: "\<And>L Q. \<not> raised_in L Q P" by (rule caught_empty_raised_in)
  from c have 3: "raises P = []" by (rule caught_empty_raises)
  show ?thesis using 1 2 3 e ret ne l by (simp add: body_post_def submit_soft_def fatal_Inr)
qed

lemma probe_other_body:
  assumes "probe_post (Inl e) P" and "\<not> is_NoSuchElementException e"
  shows "body_post sr an (Inl e) P"
proof -
  from assms(1) have f: "fatal {} (Inl e) P" and l: "set (lines P) \<subseteq> {83, 86}"
    and en: "filter slider_or_vote (entered P) = []" and ret: "\<not> returned 86 P"
    by (simp_all add: probe_post_def simple_post_def)
  from f have 1: "fatal {83, 86, 98, 123} (Inl e) P" by (rule fatal_empty_any)
  from f l have 2: "\<And>Q. raised_in {83, 86} Q P = Q e"
    using raised_in_fatal[of "Inl e" P "{83, 86}" "{83, 86}"] by simp
  from l have 4: "\<And>x. (123, x) \<notin> set (raises P)" using not_raised[of P "{83, 86}" 123] by simp
  show ?thesis using 1 2 4 en ret assms(2) by (simp add: body_post_def submit_soft_def)
qed

lemma probe_fail_facts:
  assumes "probe_post (Inl e) P" and "is_NoSuchElementException e"
  shows "caught {83, 86, 98, 123} P" and "raised_in {83, 86} Q P = Q e"
    and "\<not> raised_in {72, 75, 77} Q P" and "(123, x) \<notin> set (raises P)"
    and "\<not> returned 86 P" and "filter slider_or_vote (entered P) = []"
proof -
  from assms(1) have f: "fatal {} (Inl e) P" and l: "set (lines P) \<subseteq> {83, 86}"
    and en: "filter slider_or_vote (entered P) = []" and ret: "\<not> returned 86 P"
    by (simp_all add: probe_post_def simple_post_def)
  from f assms(2) l show "caught {83, 86, 98, 123} P"
    by (rule caught_fatal) simp_all
  from f l show "raised_in {83, 86} Q P = Q e"
    using raised_in_fatal[of "Inl e" P "{83, 86}" "{83, 86}"] by simp
  from l show "\<not> raised_in {72, 75, 77} Q P" by (rule not_raised_in) simp
  from l show "(123, x) \<notin> set (raises P)" using not_raised[of P "{83, 86}" 123 x] by simp
  from ret show "\<not> returned 86 P" .
  from en show "filter slider_or_vote (entered P) = []" .
qed

lemma qaptcha_facts:
  assumes "qaptcha_post r Q"
  shows "fatal {83, 86, 98, 123} r Q" and "\<not> raised_in {83, 86} R Q"
    and "raised_in {72, 75, 77} (\<lambda>e. True) Q = isl r" and "(123, x) \<notin> set (raises Q)"
    and "\<not> returned 86 Q" and "filter slider_or_vote (entered Q) = [Solve_qaptcha]"
proof -
  from assms have f: "fatal {} r Q" and l: "set (lines Q) \<subseteq> {72, 75, 77}"
    and en: "filter slider_or_vote (entered Q) = [Solve_qaptcha]"
    by (simp_all add: qaptcha_post_def)
  from f show "fatal {83, 86, 98, 123} r Q" by (rule fatal_empty_any)
  from l show "\<not> raised_in {83, 86} R Q" by (rule not_raised_in) simp
  from f l show "raised_in {72, 75, 77} (\<lambda>e. True) Q = isl r"
    using raised_in_fatal[of r Q "{72, 75, 77}" "{72, 75, 77}" "\<lambda>e. True"]
    by (cases r) simp_all
  from l show "(123, x) \<notin> set (raises Q)" using not_raised[of Q "{72, 75, 77}" 123 x] by simp
  from l show "\<not> returned 86 Q" by (rule not_returned) simp
  from en show "filter slider_or_vote (entered Q) = [Solve_qaptcha]" .
qed

lemma vote_facts:
  assumes "vote_post sr an r V"
  shows "fatal {83, 86, 98, 123} r V" and "\<not> raised_in {83, 86} R V"
    and "\<not> raised_in {72, 75, 77} R V" and "submit_soft r V"
    and "\<not> returned 86 V" and "filter slider_or_vote (entered V) = [Vote sr an]"
proof -
  from assms have f: "fatal {98, 123} r V"
    and l: "set (lines V) \<subseteq> {111, 112, 117, 118, 119, 93, 96, 98, 100, 101, 121, 123}"
    and en: "filter slider_or_vote (entered V) = [Vote sr an]" and s: "submit_soft r V"
    by (simp_all add: vote_post_def)
  from f show "fatal {83, 86, 98, 123} r V" by (rule fatal_mono) simp
  from l show "\<not> raised_in {83, 86} R V" by (rule not_raised_in) simp
  from l show "\<not> raised_in {72, 75, 77} R V" by (rule not_raised_in) simp
  from s show "submit_soft r V" .
  from l show "\<not> returned 86 V" by (rule not_returned) simp
  from en show "filter slider_or_vote (entered V) = [Vote sr an]" .
qed

lemma submit_soft_prepend:
  "submit_soft r V \<Longrightarrow> (\<And>x. (123, x) \<notin> set (raises pre)) \<Longrightarrow> submit_soft r (pre @ V)"
  by (auto simp: submit_soft_def)

lemma fatal_Cons_quiet: "fatal C r evs \<Longrightarrow> caught C [x] \<Longrightarrow> fatal C r (x # evs)"
  using fatal_prepend[of C "[x]" r evs] by simp

lemma handler_qaptcha_fail:
  assumes p: "probe_post (Inl ea) P" and n: "is_NoSuchElementException ea"
    and q: "qaptcha_post (Inl eb) Q"
  shows "body_post sr an (Inl eb) (Log k1 f1 a1 # P @ Log k2 f2 a2 # Q)"
proof -
  note pf = probe_fail_facts[OF p n]
  note qf = qaptcha_facts[OF q]
  have "caught {83, 86, 98, 123} (P @ [Log k2 f2 a2])" using pf(1) by simp
  then have "fatal {83, 86, 98, 123} (Inl eb) ((P @ [Log k2 f2 a2]) @ Q)"
    using qf(1) by (rule fatal_prepend)
  then have "fatal {83, 86, 98, 123} (Inl eb) (P @ Log k2 f2 a2 # Q)" by simp
  then have 1: "fatal {83, 86, 98, 123} (Inl eb) (Log k1 f1 a1 # P @ Log k2 f2 a2 # Q)"
    by (rule fatal_Cons_quiet) simp
  show ?thesis using 1 pf(2-) qf(2-) n by (simp add: body_post_def submit_soft_def)
qed

lemma handler_vote:
  assumes p: "probe_post (Inl ea) P" and n: "is_NoSuchElementException ea"
    and q: "qaptcha_post (Inr vb) Q" and v: "vote_post sr an r V"
  shows "body_post sr an r (Log k1 f1 a1 # P @ Log k2 f2 a2 # Q @ V)"
proof -
  note pf = probe_fail_facts[OF p n]
  note qf = qaptcha_facts[OF q]
  note vf = vote_facts[OF v]
  from qf(1) have "caught {83, 86, 98, 123} Q" by (simp add: fatal_Inr)
  with pf(1) have "caught {83, 86, 98, 123} (P @ Log k2 f2 a2 # Q)" by simp
  then have "fatal {83, 86, 98, 123} r ((P @ Log k2 f2 a2 # Q) @ V)"
    using vf(1) by (rule fatal_prepend)
  then have "fatal {83, 86, 98, 123} r (P @ Log k2 f2 a2 # Q @ V)" by simp
  then have 1: "fatal {83, 86, 98, 123} r (Log k1 f1 a1 # P @ Log k2 f2 a2 # Q @ V)"
    by (rule fatal_Cons_quiet) simp
  have "\<And>x. (123, x) \<notin> set (raises (Log k1 f1 a1 # P @ Log k2 f2 a2 # Q))"
    using pf(4) qf(4) by simp
  with vf(4) have "submit_soft r ((Log k1 f1 a1 # P @ Log k2 f2 a2 # Q) @ V)"
    by (rule submit_soft_prepend)
  then have 2: "submit_soft r (Log k1 f1 a1 # P @ Log k2 f2 a2 # Q @ V)" by simp
  show ?thesis using 1 2 pf(2,3,5,6) qf(2,3,5,6) vf(2,3,5,6) n by (simp add: body_post_def)
qed

lemma vote_post_None: "vote_post sr an (Inr v) V \<Longrightarrow> vote_post sr an (Inr VNone) V"
  by (simp add: vote_post_def submit_soft_def fatal_Inr)

lemma body_post_Cons_quiet:
 "body_post sr an r b \<Longrightarrow> body_post sr an r (Log k f a # b)"
  using body_post_prepend[of "[Log k f a]" sr an r b] by simp

lemma core_call:
  "emits (try_except
            (block [logging_info ''Checking if already voted today...'' [],
                    log_time_until_next_vote d page])
            [(is_NoSuchElementException, \<lambda>_. block
               [logging_info ''Not voted today yet.'' [],
                solve_qaptcha d page,
                vote d page sr an])])
         (body_post sr an)"
  apply (rule emits_weaken)
   apply (rule vcg log_time_until_next_vote_call solve_qaptcha_call vote_call)+
  apply (elim disjE exE conjE)
  apply simp_all
  subgoal by (rule body_post_Cons_quiet) (rule probe_ok_body)
  subgoal by (rule body_post_Cons_quiet) (rule probe_other_body)
  subgoal by (rule handler_qaptcha_fail)
  subgoal by (rule handler_vote)
  subgoal by (rule handler_vote) (auto intro: vote_post_None)
  done

section \<open>The whole run\<close>

lemma body_post_None: "body_post sr an (Inr v) b \<Longrightarrow> body_post sr an (Inr VNone) b"
  by (simp add: body_post_def submit_soft_def fatal_Inr)

lemma body_post_simple_prepend:
  assumes "simple_post L (Inr v) X" and "86 \<notin> L" and "body_post sr an r b"
  shows "body_post sr an r (X @ b)"
proof (rule body_post_prepend)
  from assms(1) show "caught {} X" by (simp add: simple_post_def fatal_Inr)
  from assms(1) show "filter slider_or_vote (entered X) = []" by (simp add: simple_post_def)
  from assms(1) have "set (lines X) \<subseteq> L" by (simp add: simple_post_def)
  then show "\<not> returned 86 X" using assms(2) by (rule not_returned)
  from assms(3) show "body_post sr an r b" .
qed

lemma body_post_168: "body_post sr an r b \<Longrightarrow> body_post sr an r (Drv 168 c (Inr v) # b)"
  using body_post_prepend[of "[Drv 168 c (Inr v)]" sr an r b] by simp

lemma body_post_168_fail: "body_post sr an (Inl e) [Drv 168 c (Inl e)]"
  by (rule simple_post_early[of "{168}"]) (simp_all add: simple_post_def fatal_Inl)

lemma run_post_session:
  assumes "body_post (server_rate a) (sirus_account_name a) r b"
  shows "run_post a r (Enter Run # Drv 165 c (Inr sb) # b @ [Teardown])"
proof -
  have "body_post (server_rate a) (sirus_account_name a) r ([Enter Run, Drv 165 c (Inr sb)] @ b)"
    by (rule body_post_prepend) (simp_all add: assms)
  then have "\<exists>b'. Enter Run # Drv 165 c (Inr sb) # b @ [Teardown] = b' @ [Teardown] \<and>
      body_post (server_rate a) (sirus_account_name a) r b'"
    by (intro exI[of _ "[Enter Run, Drv 165 c (Inr sb)] @ b"]) simp
  then show ?thesis unfolding run_post_def by blast
qed

lemma run_post_168_fail:
  "run_post a (Inl e) [Enter Run, Drv 165 c (Inr sb), Drv 168 c' (Inl e), Teardown]"
proof -
  have "body_post (server_rate a) (sirus_account_name a) (Inl e) [Drv 168 c' (Inl e)]"
    by (rule body_post_168_fail)
  then have "run_post a (Inl e) (Enter Run # Drv 165 c (Inr sb) # [Drv 168 c' (Inl e)] @ [Teardown])"
    by (rule run_post_session)
  then show ?thesis by simp
qed

lemma run_post_168:
  assumes "body_post (server_rate a) (sirus_account_name a) r b"
  shows "run_post a r (Enter Run # Drv 165 c (Inr sb) # Drv 168 c' (Inr va) # b @ [Teardown])"
proof -
  from assms have "body_post (server_rate a) (sirus_account_name a) r (Drv 168 c' (Inr va) # b)"
    by (rule body_post_168)
  then have "run_post a r (Enter Run # Drv 165 c (Inr sb) # (Drv 168 c' (Inr va) # b) @ [Teardown])"
    by (rule run_post_session)
  then show ?thesis by simp
qed

lemma run_post_168_2:
  assumes "body_post (server_rate a) (sirus_account_name a) r (X @ b)"
  shows "run_post a r (Enter Run # Drv 165 c (Inr sb) # Drv 168 c' (Inr va) # X @ b @ [Teardown])"
  using run_post_168[OF assms, of c sb c' va] by simp

lemma run_post_168_3:
  assumes "body_post (server_rate a) (sirus_account_name a) r (X @ Y @ b)"
  shows "run_post a r
           (Enter Run # Drv 165 c (Inr sb) # Drv 168 c' (Inr va) # X @ Y @ b @ [Teardown])"
  using run_post_168[OF assms, of c sb c' va] by simp

lemma run_call: "emits (run d a) (run_post a)"
  unfolding run_def Let_def
  apply (rule emits_weaken)
   apply (rule core_call emits_with_SB open_vote_page_call login_call vcg)+
  apply (elim disjE exE conjE)
  apply simp_all
  subgoal by (simp add: run_post_def)
  subgoal by (rule run_post_168_fail)
  subgoal by (rule run_post_168, rule simple_post_early[of "{47}"]) simp_all
  subgoal
    by (rule run_post_168_2, rule body_post_simple_prepend[of "{47}"], assumption, simp,
        rule simple_post_early[of "{57, 62, 63, 66}"]) simp_all
  subgoal
    by (rule run_post_168_3, rule body_post_simple_prepend[of "{47}"], assumption, simp,
        rule body_post_simple_prepend[of "{57, 62, 63, 66}"], assumption, simp)
  subgoal
    by (rule run_post_168_3, rule body_post_simple_prepend[of "{47}"], assumption, simp,
        rule body_post_simple_prepend[of "{57, 62, 63, 66}"], assumption, simp,
        erule body_post_None)
  done

lemma run_cases:
  obtains (no_session) c e where "result_of (run d a) w = Inl e"
      and "trace_of (run d a) w = [Enter Run, Drv 165 c (Inl e)]"
  | (session) b where "trace_of (run d a) w = b @ [Teardown]"
      and "body_post (server_rate a) (sirus_account_name a) (result_of (run d a) w) b"
proof -
  have "run_post a (result_of (run d a) w) (trace_of (run d a) w)"
    by (rule emitsD[OF run_call])
  then show ?thesis unfolding run_post_def using no_session session by blast
qed

lemma raised_in_weaken: "raised_in L P evs \<Longrightarrow> raised_in L (\<lambda>e. True) evs"
  by (induction L P evs rule: raised_in.induct) auto

lemma fatal_uncaught:
  assumes f: "fatal C r evs" and m: "(n, e) \<in> set (raises evs)"
    and u: "n \<notin> C \<or> \<not> is_NoSuchElementException e"
  shows "r = Inl e \<and> (\<exists>pre c. evs = pre @ [Drv n c (Inl e)])"
proof (cases r)
  case (Inr v)
  with f have "caught C evs" by (simp add: fatal_Inr)
  from caught_raises[OF this m] u show ?thesis by simp
next
  case (Inl e')
  with f have f': "fatal C (Inl e') evs" by simp
  from fatal_raises_last[OF f' m] u obtain c where e: "e = e'" and l: "last evs = Drv n c (Inl e')"
    by auto
  from f' have "evs \<noteq> []" by (rule fatal_nonempty)
  then have "evs = butlast evs @ [last evs]" by simp
  with l e have "evs = butlast evs @ [Drv n c (Inl e)]" by simp
  then have "\<exists>pre c. evs = pre @ [Drv n c (Inl e)]" by blast
  with Inl e show ?thesis by simp
qed

lemma run_uncaught:
  assumes m: "(n, e) \<in> set (raises (trace_of (run d a) w))"
    and u: "n \<notin> {83, 86, 98, 123} \<or> \<not> is_NoSuchElementException e"
    and n: "n \<noteq> 165"
  shows "result_of (run d a) w = Inl e \<and>
         (\<exists>pre c. trace_of (run d a) w = pre @ [Drv n c (Inl e), Teardown])"
proof (cases rule: run_cases[of d a w])
  case (no_session c e')
  with m n show ?thesis by simp
next
  case (session b)
  from session(2) have f: "fatal {83, 86, 98, 123} (result_of (run d a) w) b"
    by (simp add: body_post_def)
  from m session(1) have "(n, e) \<in> set (raises b)" by simp
  from fatal_uncaught[OF f this u] session(1) show ?thesis by auto
qed

lemma vote_summary: "vote_post sr an (result_of (vote d p sr an) w) (trace_of (vote d p sr an) w)"
  by (rule emitsD[OF vote_call])

section \<open>The entry point\<close>

lemma kwargs_config:
  "MMOTopAutomation_kwargs (config env) =
     Inr (MMOTopAutomation_init ''https://wow.mmotop.ru/servers/5130/votes/new''
            (getenv env ''mmotop_login'' '''') (getenv env ''mmotop_password'' '''') ''x2''
            (getenv env ''sirus_account_name'' '''') ''chrome'')"
  by (simp add: MMOTopAutomation_kwargs_def config_def)

lemma main_caught:
  assumes "MMOTopAutomation_kwargs (config env) = Inr a" and "result_of (run d a) w = Inl e"
    and "is_NoSuchElementException e \<or> is_TimeoutException e \<or> is_ElementNotVisibleException e"
  shows "result_of (main d env) w = Inr VNone \<and>
         trace_of (main d env) w = trace_of (run d a) w @
           [Log ERROR (if is_NoSuchElementException e then ''Element not found: %s''
                       else if is_TimeoutException e then ''A timeout occurred: %s''
                       else ''Element not visible: %s'') [VExc e]]"
  using assms
  by (cases e)
     (auto simp: main_def try_except_def result_of_def trace_of_def logging_error_def emit_def
           split: prod.splits sum.splits)

lemma main_uncaught:
  assumes "MMOTopAutomation_kwargs (config env) = Inr a" and "result_of (run d a) w = Inl e"
    and "\<not> is_NoSuchElementException e" and "\<not> is_TimeoutException e"
    and "\<not> is_ElementNotVisibleException e"
  shows "result_of (main d env) w = Inl e \<and> trace_of (main d env) w = trace_of (run d a) w"
  using assms
  by (auto simp: main_def try_except_def result_of_def trace_of_def
           split: prod.splits sum.splits)

section \<open>The claims\<close>

text \<open>
  In what follows a line number names the statement of \<^verbatim>\<open>main.py\<close> on that line: the probe
  is lines 83 and 86, the slider challenge lines 72, 75 and 77, the login lines 57, 62, 63
  and 66, the first marker check line 98, the click on the iframe line 100, the second marker
  check line 101, the radio button line 112, the account-name input line 117 and the submit
  button line 123.
\<close>

text \<open>
  Claim C1, as amended. In every run in which the countdown probe fails with
  \<^verbatim>\<open>NoSuchElementException\<close>, \<^verbatim>\<open>run\<close> enters the slider challenge exactly once; if the slider
  challenge raises nothing, it then enters the vote exactly once, with the configured
  arguments, and if the slider challenge raises, the vote is not entered. Nothing else of the
  two is entered.
\<close>

theorem probe_not_found_slider_then_vote:
  assumes "raised_in {83, 86} is_NoSuchElementException (trace_of (run d a) w)"
  shows "filter slider_or_vote (entered (trace_of (run d a) w)) =
           (if raised_in {72, 75, 77} (\<lambda>e. True) (trace_of (run d a) w) then [Solve_qaptcha]
            else [Solve_qaptcha, Vote (server_rate a) (sirus_account_name a)])"
proof (cases rule: run_cases[of d a w])
  case (no_session c e)
  with assms show ?thesis by simp
next
  case (session b)
  from assms session(1) have "raised_in {83, 86} is_NoSuchElementException b" by simp
  with session(2) have "filter slider_or_vote (entered b) =
      (if raised_in {72, 75, 77} (\<lambda>e. True) b then [Solve_qaptcha]
       else [Solve_qaptcha, Vote (server_rate a) (sirus_account_name a)])"
    by (simp add: body_post_def)
  with session(1) show ?thesis by simp
qed

text \<open>
  The probe does not find the countdown and everything after it succeeds.
\<close>

theorem probe_not_found_slider_then_vote_witness:
  "raised_in {83, 86} is_NoSuchElementException
     (trace_of (run scripted demo_automation) not_voted) \<and>
   filter slider_or_vote (entered (trace_of (run scripted demo_automation) not_voted)) =
     [Solve_qaptcha, Vote ''x2'' ''hero'']"
proof -
  have h: "raised_in {83, 86} is_NoSuchElementException
      (trace_of (run scripted demo_automation) not_voted)"
    by code_simp
  have n: "\<not> raised_in {72, 75, 77} (\<lambda>e. True)
      (trace_of (run scripted demo_automation) not_voted)"
    by code_simp
  have s: "server_rate demo_automation = ''x2''" "sirus_account_name demo_automation = ''hero''"
    by (simp_all add: demo_automation_def MMOTopAutomation_init_def)
  from probe_not_found_slider_then_vote[OF h] n s h show ?thesis by simp
qed

text \<open>
  The claim as stated, with the vote entered in every such run, fails when the slider is
  missing: the wait on line 72 raises and the vote is never entered.
\<close>

theorem slider_failure_skips_vote_counterexample:
  "raised_in {83, 86} is_NoSuchElementException
     (trace_of (run scripted demo_automation) slider_missing) \<and>
   filter slider_or_vote (entered (trace_of (run scripted demo_automation) slider_missing)) =
     [Solve_qaptcha] \<and>
   filter slider_or_vote (entered (trace_of (run scripted demo_automation) slider_missing)) \<noteq>
     [Solve_qaptcha, Vote (server_rate demo_automation) (sirus_account_name demo_automation)]"
  by code_simp

text \<open>
  Claim C2, as amended. In every run in which the countdown probe succeeds, that is, the
  countdown element is found on line 83 and its text is read on line 86, \<^verbatim>\<open>run\<close> enters
  neither the slider challenge nor the vote, returns normally, and the record of the
  remaining time is its last action before the session is released.
\<close>

theorem probe_success_no_vote:
  assumes "returned 86 (trace_of (run d a) w)"
  shows "filter slider_or_vote (entered (trace_of (run d a) w)) = [] \<and>
         result_of (run d a) w = Inr VNone \<and>
         (\<exists>pre txt. trace_of (run d a) w =
            pre @ [Log INFO ''Time remaining until next vote: %s'' [txt], Teardown])"
proof (cases rule: run_cases[of d a w])
  case (no_session c e)
  with assms show ?thesis by simp
next
  case (session b)
  from assms session(1) have ret: "returned 86 b" by simp
  with session(2) have r: "result_of (run d a) w = Inr VNone" and ne: "b \<noteq> []"
    and nr: "\<not> raised_in {83, 86} (\<lambda>e. True) b"
    and l: "\<exists>txt. last b = Log INFO ''Time remaining until next vote: %s'' [txt]"
    by (simp_all add: body_post_def)
  from nr have "\<not> raised_in {83, 86} is_NoSuchElementException b"
    using raised_in_weaken by blast
  with session(2) have "filter slider_or_vote (entered b) = []" by (simp add: body_post_def)
  with session(1) have 1: "filter slider_or_vote (entered (trace_of (run d a) w)) = []" by simp
  from l obtain t where "last b = Log INFO ''Time remaining until next vote: %s'' [t]" ..
  with ne have "b = butlast b @ [Log INFO ''Time remaining until next vote: %s'' [t]]"
    using append_butlast_last_id[of b] by simp
  with session(1) have "trace_of (run d a) w =
      butlast b @ [Log INFO ''Time remaining until next vote: %s'' [t], Teardown]"
    by (metis append.assoc append_Cons append_Nil)
  then have 2: "\<exists>pre txt. trace_of (run d a) w =
            pre @ [Log INFO ''Time remaining until next vote: %s'' [txt], Teardown]" by blast
  from 1 r 2 show ?thesis by simp
qed

text \<open>
  The countdown is on the page.
\<close>

theorem probe_success_no_vote_witness:
  "returned 86 (trace_of (run scripted demo_automation) already_voted) \<and>
   filter slider_or_vote (entered (trace_of (run scripted demo_automation) already_voted)) = [] \<and>
   result_of (run scripted demo_automation) already_voted = Inr VNone \<and>
   (\<exists>pre txt. trace_of (run scripted demo_automation) already_voted =
      pre @ [Log INFO ''Time remaining until next vote: %s'' [txt], Teardown])"
proof -
  have h: "returned 86 (trace_of (run scripted demo_automation) already_voted)"
    by code_simp
  from probe_success_no_vote[OF h] h show ?thesis by simp
qed

text \<open>
  The claim as stated, with the countdown element found as the whole condition, fails when
  the element is found and reading its text raises \<^verbatim>\<open>NoSuchElementException\<close>: the handler
  of \<^verbatim>\<open>run\<close> takes it for a missing countdown and goes on to the slider challenge and the
  vote.
\<close>

theorem countdown_found_text_missing_counterexample:
  "returned 83 (trace_of (run scripted demo_automation) countdown_text_missing) \<and>
   (86, NoSuchElementException ''text'') \<in>
     set (raises (trace_of (run scripted demo_automation) countdown_text_missing)) \<and>
   filter slider_or_vote
     (entered (trace_of (run scripted demo_automation) countdown_text_missing)) =
     [Solve_qaptcha, Vote ''x2'' ''hero''] \<and>
   filter slider_or_vote
     (entered (trace_of (run scripted demo_automation) countdown_text_missing)) \<noteq> []"
  by code_simp

text \<open>
  Claim C3, as amended. A \<^verbatim>\<open>NoSuchElementException\<close> is survived in three places only: the
  probe, the first marker check of the iframe challenge and the submit button. Raised by any
  other line, it is the result of \<^verbatim>\<open>run\<close>.
\<close>

theorem not_found_elsewhere_fatal:
  assumes "(n, NoSuchElementException m) \<in> set (raises (trace_of (run d a) w))"
    and "n \<notin> {83, 86, 98, 123}"
  shows "result_of (run d a) w = Inl (NoSuchElementException m)"
proof (cases rule: run_cases[of d a w])
  case (no_session c e)
  with assms(1) show ?thesis by simp
next
  case (session b)
  from session(2) have f: "fatal {83, 86, 98, 123} (result_of (run d a) w) b"
    by (simp add: body_post_def)
  from assms(1) session(1) have "(n, NoSuchElementException m) \<in> set (raises b)" by simp
  from fatal_uncaught[OF f this] assms(2) show ?thesis by simp
qed

text \<open>
  The radio button of the server rate is missing.
\<close>

theorem not_found_elsewhere_fatal_witness:
  "(112, NoSuchElementException ''radio'') \<in>
     set (raises (trace_of (run scripted demo_automation) radio_missing)) \<and>
   112 \<notin> {83, 86, 98, 123 :: nat} \<and>
   result_of (run scripted demo_automation) radio_missing =
     Inl (NoSuchElementException ''radio'')"
proof -
  have h: "(112, NoSuchElementException ''radio'') \<in>
      set (raises (trace_of (run scripted demo_automation) radio_missing))"
    by code_simp
  have n: "112 \<notin> {83, 86, 98, 123 :: nat}" by simp
  from not_found_elsewhere_fatal[OF h n] h n show ?thesis by simp
qed

text \<open>
  The claim as stated, with the probe as the only such place beside the submit button,
  fails at the first marker check: line 98 raises \<^verbatim>\<open>NoSuchElementException\<close>, the handler
  clicks the iframe and the run ends normally.
\<close>

theorem marker_check_not_fatal_counterexample:
  "(98, NoSuchElementException ''marker'') \<in>
     set (raises (trace_of (run scripted demo_automation) marker_late)) \<and>
   98 \<notin> {83, 86, 123 :: nat} \<and>
   result_of (run scripted demo_automation) marker_late = Inr VNone"
  by code_simp

text \<open>
  Claim C4. A \<^verbatim>\<open>NoSuchElementException\<close>, \<^verbatim>\<open>TimeoutException\<close> or
  \<^verbatim>\<open>ElementNotVisibleException\<close> raised by a line of the login is the result of \<^verbatim>\<open>run\<close>,
  which does nothing after it but release the session; the entry point catches it, logs it
  with its message under the format of its class, and ends normally.
\<close>

theorem login_failure_reaches_top_level:
  assumes "(n, e) \<in> set (raises (trace_of (run d a) w))" and "n \<in> {57, 62, 63, 66}"
    and "is_NoSuchElementException e \<or> is_TimeoutException e \<or> is_ElementNotVisibleException e"
    and "MMOTopAutomation_kwargs (config env) = Inr a"
  shows "result_of (run d a) w = Inl e \<and>
         (\<exists>pre c. trace_of (run d a) w = pre @ [Drv n c (Inl e), Teardown]) \<and>
         result_of (main d env) w = Inr VNone \<and>
         trace_of (main d env) w = trace_of (run d a) w @
           [Log ERROR (if is_NoSuchElementException e then ''Element not found: %s''
                       else if is_TimeoutException e then ''A timeout occurred: %s''
                       else ''Element not visible: %s'') [VExc e]]"
proof -
  from assms(2) have "n \<notin> {83, 86, 98, 123} \<or> \<not> is_NoSuchElementException e" and "n \<noteq> 165"
    by auto
  from run_uncaught[OF assms(1) this] have 1: "result_of (run d a) w = Inl e"
    and 2: "\<exists>pre c. trace_of (run d a) w = pre @ [Drv n c (Inl e), Teardown]" by simp_all
  from main_caught[OF assms(4) 1 assms(3)] 1 2 show ?thesis by simp
qed

text \<open>
  The sign-in link times out, in the empty environment.
\<close>

theorem login_failure_reaches_top_level_witness:
  "(57, TimeoutException ''sign in'') \<in>
     set (raises (trace_of (run scripted unset_automation) login_timeout)) \<and>
   MMOTopAutomation_kwargs (config Map.empty) = Inr unset_automation \<and>
   result_of (run scripted unset_automation) login_timeout = Inl (TimeoutException ''sign in'') \<and>
   result_of (main scripted Map.empty) login_timeout = Inr VNone \<and>
   trace_of (main scripted Map.empty) login_timeout =
     trace_of (run scripted unset_automation) login_timeout @
       [Log ERROR ''A timeout occurred: %s'' [VExc (TimeoutException ''sign in'')]]"
proof -
  have h: "(57, TimeoutException ''sign in'') \<in>
      set (raises (trace_of (run scripted unset_automation) login_timeout))"
    by code_simp
  have k: "MMOTopAutomation_kwargs (config Map.empty) = Inr unset_automation"
    by (simp add: kwargs_config unset_automation_def getenv_def)
  from login_failure_reaches_top_level[OF h _ _ k] h k show ?thesis by simp
qed

text \<open>
  Claim C5. When the click on the submit button raises \<^verbatim>\<open>NoSuchElementException\<close>, the
  vote logs \<^verbatim>\<open>Captcha not solved!\<close> as an error, as its last action, and returns normally;
  \<^verbatim>\<open>run\<close> then returns normally too, with nothing after that record but the release of
  the session.
\<close>

theorem submit_missing_soft_failure:
  "((123, NoSuchElementException m) \<in> set (raises (trace_of (vote d p sr an) w)) \<longrightarrow>
      result_of (vote d p sr an) w = Inr VNone \<and>
      (\<exists>pre. trace_of (vote d p sr an) w = pre @ [Log ERROR ''Captcha not solved!'' []])) \<and>
   ((123, NoSuchElementException m) \<in> set (raises (trace_of (run d' a) w')) \<longrightarrow>
      result_of (run d' a) w' = Inr VNone \<and>
      (\<exists>pre. trace_of (run d' a) w' = pre @ [Log ERROR ''Captcha not solved!'' [], Teardown]))"
proof (intro conjI impI)
  assume m: "(123, NoSuchElementException m) \<in> set (raises (trace_of (vote d p sr an) w))"
  from vote_summary[of sr an d p w] have
    "submit_soft (result_of (vote d p sr an) w) (trace_of (vote d p sr an) w)"
    by (simp add: vote_post_def)
  with m have r: "result_of (vote d p sr an) w = Inr VNone"
    and ne: "trace_of (vote d p sr an) w \<noteq> []"
    and l: "last (trace_of (vote d p sr an) w) = Log ERROR ''Captcha not solved!'' []"
    by (auto simp: submit_soft_def)
  from r show "result_of (vote d p sr an) w = Inr VNone" .
  from ne l have "trace_of (vote d p sr an) w =
      butlast (trace_of (vote d p sr an) w) @ [Log ERROR ''Captcha not solved!'' []]"
    using append_butlast_last_id[of "trace_of (vote d p sr an) w"] by simp
  then show "\<exists>pre. trace_of (vote d p sr an) w = pre @ [Log ERROR ''Captcha not solved!'' []]"
    by blast
next
  assume m: "(123, NoSuchElementException m) \<in> set (raises (trace_of (run d' a) w'))"
  have "result_of (run d' a) w' = Inr VNone \<and>
      (\<exists>pre. trace_of (run d' a) w' = pre @ [Log ERROR ''Captcha not solved!'' [], Teardown])"
  proof (cases rule: run_cases[of d' a w'])
    case (no_session c e)
    with m show ?thesis by simp
  next
    case (session b)
    from m session(1) have mb: "(123, NoSuchElementException m) \<in> set (raises b)" by simp
    from session(2) have "submit_soft (result_of (run d' a) w') b" by (simp add: body_post_def)
    with mb have r: "result_of (run d' a) w' = Inr VNone" and ne: "b \<noteq> []"
      and l: "last b = Log ERROR ''Captcha not solved!'' []"
      by (auto simp: submit_soft_def)
    from ne l have "b = butlast b @ [Log ERROR ''Captcha not solved!'' []]"
      using append_butlast_last_id[of b] by simp
    with session(1) have "trace_of (run d' a) w' =
        butlast b @ [Log ERROR ''Captcha not solved!'' [], Teardown]"
      by (metis append.assoc append_Cons append_Nil)
    with r show ?thesis by blast
  qed
  then show "result_of (run d' a) w' = Inr VNone"
    and "\<exists>pre. trace_of (run d' a) w' = pre @ [Log ERROR ''Captcha not solved!'' [], Teardown]"
    by simp_all
qed

text \<open>
  The submit button is missing, in the vote alone and in a whole run.
\<close>

theorem submit_missing_soft_failure_witness:
  "(123, NoSuchElementException ''submit'') \<in>
     set (raises (trace_of (vote scripted demo_page ''x2'' ''hero'') vote_submit_missing)) \<and>
   result_of (vote scripted demo_page ''x2'' ''hero'') vote_submit_missing = Inr VNone \<and>
   (123, NoSuchElementException ''submit'') \<in>
     set (raises (trace_of (run scripted demo_automation) submit_missing)) \<and>
   result_of (run scripted demo_automation) submit_missing = Inr VNone"
proof -
  have h1: "(123, NoSuchElementException ''submit'') \<in>
      set (raises (trace_of (vote scripted demo_page ''x2'' ''hero'') vote_submit_missing))"
    by code_simp
  have h2: "(123, NoSuchElementException ''submit'') \<in>
      set (raises (trace_of (run scripted demo_automation) submit_missing))"
    by code_simp
  from submit_missing_soft_failure[THEN conjunct1, THEN mp, OF h1]
    submit_missing_soft_failure[THEN conjunct2, THEN mp, OF h2] h1 h2
  show ?thesis by simp
qed

text \<open>
  Claim C6, as amended. Once the iframe challenge has switched into the iframe, it checks for
  the marker exactly once on line 98; it clicks the iframe, exactly once, if and only if
  that check raised \<^verbatim>\<open>NoSuchElementException\<close>; it checks again, exactly once, if and only
  if that click returned; there is no further attempt.
\<close>

theorem iframe_challenge_single_retry:
  assumes "returned 96 (trace_of (solve_cloudflare_captcha d p) w)"
  shows "count_list (lines (trace_of (solve_cloudflare_captcha d p) w)) 98 = 1 \<and>
         count_list (lines (trace_of (solve_cloudflare_captcha d p) w)) 100 =
           (if raised_in {98} is_NoSuchElementException (trace_of (solve_cloudflare_captcha d p) w)
            then 1 else 0) \<and>
         count_list (lines (trace_of (solve_cloudflare_captcha d p) w)) 101 =
           (if returned 100 (trace_of (solve_cloudflare_captcha d p) w) then 1 else 0) \<and>
         (returned 100 (trace_of (solve_cloudflare_captcha d p) w) \<longrightarrow>
            raised_in {98} is_NoSuchElementException (trace_of (solve_cloudflare_captcha d p) w))"
  using emitsD[OF cf_exact, of d p w] assms by blast

text \<open>
  The marker appears after the click.
\<close>

theorem iframe_challenge_single_retry_witness:
  "returned 96 (trace_of (solve_cloudflare_captcha scripted demo_page) marker_after_click) \<and>
   raised_in {98} is_NoSuchElementException
     (trace_of (solve_cloudflare_captcha scripted demo_page) marker_after_click) \<and>
   count_list (lines (trace_of (solve_cloudflare_captcha scripted demo_page) marker_after_click)) 98 = 1 \<and>
   count_list (lines (trace_of (solve_cloudflare_captcha scripted demo_page) marker_after_click)) 100 = 1 \<and>
   count_list (lines (trace_of (solve_cloudflare_captcha scripted demo_page) marker_after_click)) 101 = 1"
proof -
  have h: "returned 96 (trace_of (solve_cloudflare_captcha scripted demo_page) marker_after_click)"
    by code_simp
  have r: "raised_in {98} is_NoSuchElementException
      (trace_of (solve_cloudflare_captcha scripted demo_page) marker_after_click)"
    by code_simp
  have c: "returned 100 (trace_of (solve_cloudflare_captcha scripted demo_page) marker_after_click)"
    by code_simp
  from iframe_challenge_single_retry[OF h] h r c show ?thesis by simp
qed

text \<open>
  The claim as stated, with the second check made whenever the first one raised
  \<^verbatim>\<open>NoSuchElementException\<close>, fails when the click itself raises: the second check is not
  made.
\<close>

theorem click_failure_skips_recheck_counterexample:
  "returned 96 (trace_of (solve_cloudflare_captcha scripted demo_page) click_fails) \<and>
   raised_in {98} is_NoSuchElementException
     (trace_of (solve_cloudflare_captcha scripted demo_page) click_fails) \<and>
   count_list (lines (trace_of (solve_cloudflare_captcha scripted demo_page) click_fails)) 100 = 1 \<and>
   count_list (lines (trace_of (solve_cloudflare_captcha scripted demo_page) click_fails)) 101 = 0"
  by code_simp

text \<open>
  Claim C7. Whenever \<^verbatim>\<open>run\<close> enters the vote, the arguments of the call are the server rate
  and the account name given to the constructor.
\<close>

theorem vote_called_with_configured_values:
  assumes "a = MMOTopAutomation_init u n p sr an b"
    and "Vote sr' an' \<in> set (entered (trace_of (run d a) w))"
  shows "sr' = sr \<and> an' = an"
proof -
  from assms(2) have m: "Vote sr' an' \<in> set (filter slider_or_vote (entered (trace_of (run d a) w)))"
    by simp
  from assms(1) have s: "server_rate a = sr" "sirus_account_name a = an"
    by (simp_all add: MMOTopAutomation_init_def)
  show ?thesis
  proof (cases rule: run_cases[of d a w])
    case (no_session c e)
    with m show ?thesis by simp
  next
    case (session tr)
    define F where "F = filter slider_or_vote (entered tr)"
    from session(2) have "F \<in>
        {[], [Solve_qaptcha], [Solve_qaptcha, Vote (server_rate a) (sirus_account_name a)]}"
      by (simp add: body_post_def F_def)
    moreover from m session(1) have "Vote sr' an' \<in> set F"
      by (simp add: F_def)
    ultimately show ?thesis using s by auto
  qed
qed

text \<open>
  A run that reaches the vote.
\<close>

theorem vote_called_with_configured_values_witness:
  "demo_automation =
     MMOTopAutomation_init ''https://wow.mmotop.ru/servers/5130/votes/new''
       ''user'' ''secret'' ''x2'' ''hero'' ''chrome'' \<and>
   Vote ''x2'' ''hero'' \<in> set (entered (trace_of (run scripted demo_automation) not_voted))"
proof -
  have a: "demo_automation =
     MMOTopAutomation_init ''https://wow.mmotop.ru/servers/5130/votes/new''
       ''user'' ''secret'' ''x2'' ''hero'' ''chrome''"
    by (simp add: demo_automation_def)
  have h: "Vote ''x2'' ''hero'' \<in> set (entered (trace_of (run scripted demo_automation) not_voted))"
    by code_simp
  from vote_called_with_configured_values[OF a h] a h show ?thesis by simp
qed

text \<open>
  Claim C9. In the vote, a \<^verbatim>\<open>NoSuchElementException\<close> raised by the click on the radio
  button, by the lookup of the account-name input or by the second marker check is the
  result of the vote, whose last event is that raise; it is then the result of \<^verbatim>\<open>run\<close>,
  which does nothing after it but release the session.
\<close>

theorem vote_not_found_propagates:
  "((n, NoSuchElementException m) \<in> set (raises (trace_of (vote d p sr an) w)) \<and>
      n \<in> {112, 117, 101} \<longrightarrow>
      result_of (vote d p sr an) w = Inl (NoSuchElementException m) \<and>
      (\<exists>pre c. trace_of (vote d p sr an) w = pre @ [Drv n c (Inl (NoSuchElementException m))])) \<and>
   ((n, NoSuchElementException m) \<in> set (raises (trace_of (run d' a) w')) \<and>
      n \<in> {112, 117, 101} \<longrightarrow>
      result_of (run d' a) w' = Inl (NoSuchElementException m) \<and>
      (\<exists>pre c. trace_of (run d' a) w' =
         pre @ [Drv n c (Inl (NoSuchElementException m)), Teardown]))"
proof (intro conjI impI)
  assume h: "(n, NoSuchElementException m) \<in> set (raises (trace_of (vote d p sr an) w)) \<and>
      n \<in> {112, 117, 101}"
  from vote_summary[of sr an d p w] have
    f: "fatal {98, 123} (result_of (vote d p sr an) w) (trace_of (vote d p sr an) w)"
    by (simp add: vote_post_def)
  from h have m: "(n, NoSuchElementException m) \<in> set (raises (trace_of (vote d p sr an) w))"
    and "n \<notin> {98, 123} \<or> \<not> is_NoSuchElementException (NoSuchElementException m)" by auto
  from fatal_uncaught[OF f this]
  show "result_of (vote d p sr an) w = Inl (NoSuchElementException m)"
    and "\<exists>pre c. trace_of (vote d p sr an) w = pre @ [Drv n c (Inl (NoSuchElementException m))]"
    by simp_all
next
  assume h: "(n, NoSuchElementException m) \<in> set (raises (trace_of (run d' a) w')) \<and>
      n \<in> {112, 117, 101}"
  then have m: "(n, NoSuchElementException m) \<in> set (raises (trace_of (run d' a) w'))"
    and "n \<notin> {83, 86, 98, 123} \<or> \<not> is_NoSuchElementException (NoSuchElementException m)"
    and "n \<noteq> 165" by auto
  from run_uncaught[OF this]
  show "result_of (run d' a) w' = Inl (NoSuchElementException m)"
    and "\<exists>pre c. trace_of (run d' a) w' =
         pre @ [Drv n c (Inl (NoSuchElementException m)), Teardown]"
    by simp_all
qed

text \<open>
  The radio button is missing, in the vote alone and in a whole run.
\<close>

theorem vote_not_found_propagates_witness:
  "(112, NoSuchElementException ''radio'') \<in>
     set (raises (trace_of (vote scripted demo_page ''x2'' ''hero'') vote_radio_missing)) \<and>
   result_of (vote scripted demo_page ''x2'' ''hero'') vote_radio_missing =
     Inl (NoSuchElementException ''radio'') \<and>
   (112, NoSuchElementException ''radio'') \<in>
     set (raises (trace_of (run scripted demo_automation) radio_missing)) \<and>
   result_of (run scripted demo_automation) radio_missing =
     Inl (NoSuchElementException ''radio'')"
proof -
  have h1: "(112, NoSuchElementException ''radio'') \<in>
      set (raises (trace_of (vote scripted demo_page ''x2'' ''hero'') vote_radio_missing)) \<and>
      112 \<in> {112, 117, 101 :: nat}"
    by code_simp
  have h2: "(112, NoSuchElementException ''radio'') \<in>
      set (raises (trace_of (run scripted demo_automation) radio_missing)) \<and>
      112 \<in> {112, 117, 101 :: nat}"
    by code_simp
  from vote_not_found_propagates[THEN conjunct1, THEN mp, OF h1]
    vote_not_found_propagates[THEN conjunct2, THEN mp, OF h2] h1 h2
  show ?thesis by simp
qed

text \<open>
  Claim C10. When the probe raises an exception that is not a
  \<^verbatim>\<open>NoSuchElementException\<close>, \<^verbatim>\<open>run\<close> enters neither the slider challenge nor the vote, and
  the exception is its result, with nothing after the raise but the release of the session.
  At the entry point a \<^verbatim>\<open>TimeoutException\<close> or \<^verbatim>\<open>ElementNotVisibleException\<close> is logged
  with its message and the process ends normally; an exception of another class leaves the
  entry point as well.
\<close>

theorem probe_other_failure_propagates:
  assumes "(n, e) \<in> set (raises (trace_of (run d a) w))" and "n \<in> {83, 86}"
    and "\<not> is_NoSuchElementException e"
    and "MMOTopAutomation_kwargs (config env) = Inr a"
  shows "filter slider_or_vote (entered (trace_of (run d a) w)) = [] \<and>
         result_of (run d a) w = Inl e \<and>
         (\<exists>pre c. trace_of (run d a) w = pre @ [Drv n c (Inl e), Teardown]) \<and>
         (if is_TimeoutException e \<or> is_ElementNotVisibleException e
          then result_of (main d env) w = Inr VNone \<and>
               trace_of (main d env) w = trace_of (run d a) w @
                 [Log ERROR (if is_TimeoutException e then ''A timeout occurred: %s''
                             else ''Element not visible: %s'') [VExc e]]
          else result_of (main d env) w = Inl e \<and>
               trace_of (main d env) w = trace_of (run d a) w)"
proof -
  from assms(2,3) have u: "n \<notin> {83, 86, 98, 123} \<or> \<not> is_NoSuchElementException e"
    and n: "n \<noteq> 165" by auto
  from run_uncaught[OF assms(1) u n] have 1: "result_of (run d a) w = Inl e"
    and 2: "\<exists>pre c. trace_of (run d a) w = pre @ [Drv n c (Inl e), Teardown]" by simp_all
  from assms(1,2,3) have ri: "raised_in {83, 86} (\<lambda>e. \<not> is_NoSuchElementException e)
      (trace_of (run d a) w)"
    unfolding raised_in_iff by blast
  have 3: "filter slider_or_vote (entered (trace_of (run d a) w)) = []"
  proof (cases rule: run_cases[of d a w])
    case (no_session c e')
    then show ?thesis by simp
  next
    case (session b)
    from ri session(1) have "raised_in {83, 86} (\<lambda>e. \<not> is_NoSuchElementException e) b" by simp
    with session(2) have "\<not> raised_in {83, 86} is_NoSuchElementException b"
      by (simp add: body_post_def)
    with session(2) have "filter slider_or_vote (entered b) = []" by (simp add: body_post_def)
    with session(1) show ?thesis by simp
  qed
  have 4: "if is_TimeoutException e \<or> is_ElementNotVisibleException e
          then result_of (main d env) w = Inr VNone \<and>
               trace_of (main d env) w = trace_of (run d a) w @
                 [Log ERROR (if is_TimeoutException e then ''A timeout occurred: %s''
                             else ''Element not visible: %s'') [VExc e]]
          else result_of (main d env) w = Inl e \<and>
               trace_of (main d env) w = trace_of (run d a) w"
  proof (cases "is_TimeoutException e \<or> is_ElementNotVisibleException e")
    case True
    then have "is_NoSuchElementException e \<or> is_TimeoutException e \<or>
        is_ElementNotVisibleException e" by simp
    from main_caught[OF assms(4) 1 this] True assms(3) show ?thesis by simp
  next
    case False
    with main_uncaught[OF assms(4) 1 assms(3)] show ?thesis by simp
  qed
  from 1 2 3 4 show ?thesis by simp
qed

text \<open>
  The wait for the countdown times out, in the empty environment.
\<close>

theorem probe_other_failure_propagates_witness:
  "(83, TimeoutException ''countdown'') \<in>
     set (raises (trace_of (run scripted unset_automation) probe_timeout)) \<and>
   MMOTopAutomation_kwargs (config Map.empty) = Inr unset_automation \<and>
   filter slider_or_vote (entered (trace_of (run scripted unset_automation) probe_timeout)) = [] \<and>
   result_of (run scripted unset_automation) probe_timeout =
     Inl (TimeoutException ''countdown'') \<and>
   result_of (main scripted Map.empty) probe_timeout = Inr VNone \<and>
   trace_of (main scripted Map.empty) probe_timeout =
     trace_of (run scripted unset_automation) probe_timeout @
       [Log ERROR ''A timeout occurred: %s'' [VExc (TimeoutException ''countdown'')]]"
proof -
  have h: "(83, TimeoutException ''countdown'') \<in>
      set (raises (trace_of (run scripted unset_automation) probe_timeout))"
    by code_simp
  have k: "MMOTopAutomation_kwargs (config Map.empty) = Inr unset_automation"
    by (simp add: kwargs_config unset_automation_def getenv_def)
  from probe_other_failure_propagates[OF h _ _ k] h k show ?thesis by simp
qed

text \<open>
  Claim C8. In every environment where \<^verbatim>\<open>mmotop_login\<close>, \<^verbatim>\<open>mmotop_password\<close> and
  \<^verbatim>\<open>sirus_account_name\<close> are not set, the configuration is built and gives the empty
  string for \<^verbatim>\<open>user_name\<close>, \<^verbatim>\<open>user_password\<close> and \<^verbatim>\<open>sirus_account_name\<close>; the
  automation object built from it holds the empty string in the three fields.
\<close>

theorem config_unset_defaults:
  assumes "env ''mmotop_login'' = None" and "env ''mmotop_password'' = None"
    and "env ''sirus_account_name'' = None"
  shows "map_of (config env) ''user_name'' = Some '''' \<and>
         map_of (config env) ''user_password'' = Some '''' \<and>
         map_of (config env) ''sirus_account_name'' = Some '''' \<and>
         (\<exists>a. MMOTopAutomation_kwargs (config env) = Inr a \<and>
              username a = '''' \<and> password a = '''' \<and> sirus_account_name a = '''')"
  using assms by (simp add: kwargs_config MMOTopAutomation_init_def) (simp add: config_def getenv_def)

text \<open>
  The empty environment.
\<close>

theorem config_unset_defaults_witness:
  "Map.empty ''mmotop_login'' = (None :: string option) \<and>
   map_of (config Map.empty) ''user_name'' = Some '''' \<and>
   map_of (config Map.empty) ''user_password'' = Some '''' \<and>
   map_of (config Map.empty) ''sirus_account_name'' = Some '''' \<and>
   (\<exists>a. MMOTopAutomation_kwargs (config Map.empty) = Inr a \<and>
        username a = '''' \<and> password a = '''' \<and> sirus_account_name a = '''')"
  using config_unset_defaults[of Map.empty] by simp

end
